theory Spec2Isabelle
  imports Complex_Main "HOL-Library.Char_ord" "HOL-Library.List_Lexorder"
begin

section \<open>Strings\<close>

text \<open>
  A Python \<open>str\<close> is modelled as a \<open>string\<close> whose characters are the code points
  0..255; \<open>length\<close> is Python's \<open>len\<close>. The character classes below are those of
  \<open>str.isspace\<close> (also the class \<open>\s\<close> of \<open>re\<close>), of \<open>\d\<close> and of \<open>str.lower\<close>
  on that range.
\<close>

definition is_space :: "char \<Rightarrow> bool" where
  "is_space c =
     (let n = (of_char c :: nat)
      in (9 \<le> n \<and> n \<le> 13) \<or> (28 \<le> n \<and> n \<le> 32) \<or> n = 133 \<or> n = 160)"

definition is_digit :: "char \<Rightarrow> bool" where
  "is_digit c = (c \<in> set ''0123456789'')"

definition digit_val :: "char \<Rightarrow> nat" where
  "digit_val c = (of_char c :: nat) - 48"

definition digit_char :: "nat \<Rightarrow> char" where
  "digit_char n = ''0123456789'' ! (n mod 10)"

definition lower_char :: "char \<Rightarrow> char" where
  "lower_char c =
     (let n = (of_char c :: nat)
      in if (65 \<le> n \<and> n \<le> 90) \<or> (192 \<le> n \<and> n \<le> 222 \<and> n \<noteq> 215)
         then char_of (n + 32) else c)"

definition lower :: "string \<Rightarrow> string" where
  "lower s = map lower_char s"

definition strip :: "string \<Rightarrow> string" where
  "strip s = rev (dropWhile is_space (rev (dropWhile is_space s)))"

fun startswith :: "string \<Rightarrow> string \<Rightarrow> bool" where
  "startswith s [] = True"
| "startswith [] (p # ps) = False"
| "startswith (c # cs) (p # ps) = (c = p \<and> startswith cs ps)"

definition endswith :: "string \<Rightarrow> string \<Rightarrow> bool" where
  "endswith s p = startswith (rev s) (rev p)"

fun contains :: "string \<Rightarrow> string \<Rightarrow> bool" where
  "contains [] p = (p = [])"
| "contains (c # cs) p = (startswith (c # cs) p \<or> contains cs p)"

text \<open>\<open>int(s)\<close> on a string of decimal digits with optional surrounding blanks.\<close>

definition int_of_digits :: "string \<Rightarrow> nat" where
  "int_of_digits s = foldl (\<lambda>a c. 10 * a + digit_val c) 0 (strip s)"

section \<open>Dates: \<open>datetime.strptime\<close> and \<open>strftime\<close>\<close>

text \<open>
  \<open>datetime.strptime\<close> turns the format into a regular expression, one group per
  directive, matches it against the start of the data with backtracking, rejects the
  data when the match leaves text over, and builds the \<open>datetime\<close>, which rejects a day
  that the month does not have. Each group is modelled by the list of its possible matches
  (matched text and the rest of the data) in the order the alternatives are tried; the first
  element of the list for the whole format is the match that \<open>re.match\<close> finds.
  Month abbreviations are those of the C locale.
\<close>

datatype py_error = ValueError | AttributeError | JSONDecodeError | IntegrityError
  | DataError | TimeoutError | ConnectionError | BadZipFile | IsADirectoryError | OverflowError

type_synonym matcher = "string \<Rightarrow> (string \<times> string) list"

definition one_of :: "(char \<Rightarrow> bool) \<Rightarrow> matcher" where
  "one_of P s = (case s of [] \<Rightarrow> [] | c # r \<Rightarrow> if P c then [([c], r)] else [])"

definition sq :: "matcher \<Rightarrow> matcher \<Rightarrow> matcher" where
  "sq m1 m2 s = concat (map (\<lambda>(a, r). map (\<lambda>(b, r'). (a @ b, r')) (m2 r)) (m1 s))"

definition alt :: "matcher \<Rightarrow> matcher \<Rightarrow> matcher" where
  "alt m1 m2 s = m1 s @ m2 s"

definition chr :: "char \<Rightarrow> matcher" where
  "chr c = one_of (\<lambda>x. x = c)"

definition cls :: "string \<Rightarrow> matcher" where
  "cls cs = one_of (\<lambda>x. x \<in> set cs)"

definition digit :: matcher where
  "digit = one_of is_digit"

text \<open>\<open>'d': (3[0-1]|[1-2]\d|0[1-9]|[1-9]| [1-9])\<close>\<close>
definition re_d :: matcher where
  "re_d = alt (sq (chr CHR ''3'') (cls ''01''))
         (alt (sq (cls ''12'') digit)
         (alt (sq (chr CHR ''0'') (cls ''123456789''))
         (alt (cls ''123456789'')
              (sq (chr CHR '' '') (cls ''123456789'')))))"

text \<open>\<open>'m': (1[0-2]|0[1-9]|[1-9])\<close>\<close>
definition re_m :: matcher where
  "re_m = alt (sq (chr CHR ''1'') (cls ''012''))
         (alt (sq (chr CHR ''0'') (cls ''123456789''))
              (cls ''123456789''))"

text \<open>\<open>'Y': (\d\d\d\d)\<close>\<close>
definition re_Y :: matcher where
  "re_Y = sq digit (sq digit (sq digit digit))"

text \<open>\<open>'H': (2[0-3]|[0-1]\d|\d)\<close>\<close>
definition re_H :: matcher where
  "re_H = alt (sq (chr CHR ''2'') (cls ''0123''))
         (alt (sq (cls ''01'') digit) digit)"

text \<open>\<open>'M': ([0-5]\d|\d)\<close>\<close>
definition re_M :: matcher where
  "re_M = alt (sq (cls ''012345'') digit) digit"

text \<open>\<open>'S': (6[0-1]|[0-5]\d|\d)\<close>\<close>
definition re_S :: matcher where
  "re_S = alt (sq (chr CHR ''6'') (cls ''01''))
         (alt (sq (cls ''012345'') digit) digit)"

definition a_month :: "string list" where
  "a_month = [''jan'', ''feb'', ''mar'', ''apr'', ''may'', ''jun'',
              ''jul'', ''aug'', ''sep'', ''oct'', ''nov'', ''dec'']"

text \<open>\<open>'b'\<close>: the alternatives of \<open>a_month\<close>, matched ignoring case.\<close>
definition re_b :: matcher where
  "re_b s = (if lower (take 3 s) \<in> set a_month then [(take 3 s, drop 3 s)] else [])"

text \<open>White space in a format is replaced by \<open>\s+\<close>: greedy, longest match first.\<close>
definition re_spaces :: matcher where
  "re_spaces s =
     (let n = length (takeWhile is_space s)
      in map (\<lambda>k. (take k s, drop k s)) (rev [1..<Suc n]))"

fun index_of :: "'a \<Rightarrow> 'a list \<Rightarrow> nat" where
  "index_of x [] = 0"
| "index_of x (y # ys) = (if x = y then 0 else Suc (index_of x ys))"

record fields =
  f_year :: nat
  f_month :: nat
  f_day :: nat
  f_hour :: nat
  f_minute :: nat
  f_second :: nat

datatype directive = Dir_d | Dir_m | Dir_Y | Dir_b | Dir_H | Dir_M | Dir_S | Spaces
  | Lit char

text \<open>
  The directives of a format string: \<open>%x\<close> is a directive, a run of white space is
  \<open>\s+\<close>, any other character stands for itself. A directive that \<open>strptime\<close> does not
  know, and a trailing \<open>%\<close>, are a \<open>ValueError\<close>.
\<close>

fun compile_format :: "string \<Rightarrow> directive list option" where
  "compile_format [] = Some []"
| "compile_format [c] =
     (if c = CHR ''%'' then None else if is_space c then Some [Spaces] else Some [Lit c])"
| "compile_format (c # x # r) =
     (if c = CHR ''%'' then
        (case (if x = CHR ''d'' then Some Dir_d else if x = CHR ''m'' then Some Dir_m
               else if x = CHR ''Y'' then Some Dir_Y else if x = CHR ''b'' then Some Dir_b
               else if x = CHR ''H'' then Some Dir_H else if x = CHR ''M'' then Some Dir_M
               else if x = CHR ''S'' then Some Dir_S else None) of
           None \<Rightarrow> None
         | Some d \<Rightarrow> map_option ((#) d) (compile_format r))
      else if is_space c then
        (if is_space x then compile_format (x # r)
         else map_option ((#) Spaces) (compile_format (x # r)))
      else map_option ((#) (Lit c)) (compile_format (x # r)))"

definition match_directive :: "directive \<Rightarrow> fields \<times> string \<Rightarrow> (fields \<times> string) list" where
  "match_directive d st =
     (case st of (f, s) \<Rightarrow>
        (case d of
           Dir_d \<Rightarrow> map (\<lambda>(t, r). (f\<lparr>f_day := int_of_digits t\<rparr>, r)) (re_d s)
         | Dir_m \<Rightarrow> map (\<lambda>(t, r). (f\<lparr>f_month := int_of_digits t\<rparr>, r)) (re_m s)
         | Dir_Y \<Rightarrow> map (\<lambda>(t, r). (f\<lparr>f_year := int_of_digits t\<rparr>, r)) (re_Y s)
         | Dir_b \<Rightarrow> map (\<lambda>(t, r). (f\<lparr>f_month := Suc (index_of (lower t) a_month)\<rparr>, r)) (re_b s)
         | Dir_H \<Rightarrow> map (\<lambda>(t, r). (f\<lparr>f_hour := int_of_digits t\<rparr>, r)) (re_H s)
         | Dir_M \<Rightarrow> map (\<lambda>(t, r). (f\<lparr>f_minute := int_of_digits t\<rparr>, r)) (re_M s)
         | Dir_S \<Rightarrow> map (\<lambda>(t, r). (f\<lparr>f_second := int_of_digits t\<rparr>, r)) (re_S s)
         | Spaces \<Rightarrow> map (\<lambda>(t, r). (f, r)) (re_spaces s)
         | Lit c \<Rightarrow> map (\<lambda>(t, r). (f, r)) (chr c s)))"

fun match_format :: "directive list \<Rightarrow> fields \<times> string \<Rightarrow> (fields \<times> string) list" where
  "match_format [] st = [st]"
| "match_format (d # ds) st = concat (map (match_format ds) (match_directive d st))"

definition is_leap :: "nat \<Rightarrow> bool" where
  "is_leap y = (y mod 4 = 0 \<and> (y mod 100 \<noteq> 0 \<or> y mod 400 = 0))"

definition days_in_month :: "nat \<Rightarrow> nat \<Rightarrow> nat" where
  "days_in_month y m =
     (if m = 2 then (if is_leap y then 29 else 28)
      else if m \<in> {4, 6, 9, 11} then 30 else 31)"

text \<open>The checks of the \<open>datetime\<close> constructor (\<open>MINYEAR = 1\<close>, \<open>MAXYEAR = 9999\<close>).\<close>
definition valid_date :: "nat \<Rightarrow> nat \<Rightarrow> nat \<Rightarrow> bool" where
  "valid_date y m d =
     (1 \<le> y \<and> y \<le> 9999 \<and> 1 \<le> m \<and> m \<le> 12 \<and> 1 \<le> d \<and> d \<le> days_in_month y m)"

definition valid_fields :: "fields \<Rightarrow> bool" where
  "valid_fields f =
     (valid_date (f_year f) (f_month f) (f_day f)
      \<and> f_hour f \<le> 23 \<and> f_minute f \<le> 59 \<and> f_second f \<le> 59)"

definition default_fields :: fields where
  "default_fields = \<lparr>f_year = 1900, f_month = 1, f_day = 1,
                      f_hour = 0, f_minute = 0, f_second = 0\<rparr>"

definition strptime :: "string \<Rightarrow> string \<Rightarrow> py_error + fields" where
  "strptime data_string fmt =
     (case compile_format fmt of
        None \<Rightarrow> Inl ValueError
      | Some ds \<Rightarrow>
          (case match_format ds (default_fields, data_string) of
             [] \<Rightarrow> Inl ValueError
           | (f, rest) # _ \<Rightarrow>
               if rest \<noteq> [] then Inl ValueError
               else if valid_fields f then Inr f else Inl ValueError))"

definition pad2 :: "nat \<Rightarrow> string" where
  "pad2 n = [digit_char (n div 10), digit_char n]"

definition pad4 :: "nat \<Rightarrow> string" where
  "pad4 n = [digit_char (n div 1000), digit_char (n div 100), digit_char (n div 10), digit_char n]"

text \<open>
  \<open>dt.strftime('%Y-%m-%d')\<close> is the C library's \<open>strftime\<close>. Its \<open>%Y\<close> writes the year as a
  decimal number without leading zeros, so the year 999 comes out as \<open>999\<close> and only the
  years from 1000 on have four digits; \<open>%m\<close> and \<open>%d\<close> are two digits each.
\<close>
definition year_digits :: "nat \<Rightarrow> string" where
  "year_digits y =
     (if y < 10 then [digit_char y]
      else if y < 100 then [digit_char (y div 10), digit_char y]
      else if y < 1000 then [digit_char (y div 100), digit_char (y div 10), digit_char y]
      else pad4 y)"

definition strftime_ymd :: "fields \<Rightarrow> string" where
  "strftime_ymd f = year_digits (f_year f) @ ''-'' @ pad2 (f_month f) @ ''-'' @ pad2 (f_day f)"

section \<open>The record normalizer's date parser\<close>

text \<open>
  A cell of a raw dataset row is a JSON string or \<open>null\<close>; a nullable text column of the
  store has the same values. Python's \<open>None\<close> and SQL's \<open>NULL\<close> are \<open>None\<close>.
\<close>
type_synonym cell = "string option"

text \<open>Truth value of a cell: \<open>None\<close> and the empty string are false.\<close>
definition truthy :: "cell \<Rightarrow> bool" where
  "truthy c = (case c of None \<Rightarrow> False | Some s \<Rightarrow> s \<noteq> [])"

definition formats :: "string list" where
  "formats = [''%d %b %Y'', ''%Y-%m-%d'', ''%d-%m-%Y'', ''%d/%m/%Y'', ''%d-%b-%Y'']"

text \<open>The loop over the formats: the first one that parses wins, a \<open>ValueError\<close> moves on.\<close>
fun try_formats :: "string list \<Rightarrow> string \<Rightarrow> string option" where
  "try_formats [] s = None"
| "try_formats (fmt # fmts) s =
     (case strptime (strip s) fmt of
        Inr dt \<Rightarrow> Some (strftime_ymd dt)
      | Inl e \<Rightarrow> try_formats fmts s)"

text \<open>The test \<open>len(date_str) == 10 and date_str[4] == '-' and date_str[7] == '-'\<close>.\<close>
definition dashed10 :: "string \<Rightarrow> bool" where
  "dashed10 s = (length s = 10 \<and> s ! 4 = CHR ''-'' \<and> s ! 7 = CHR ''-'')"

definition parse_date :: "cell \<Rightarrow> string option" where
  "parse_date date_str =
     (case date_str of
        None \<Rightarrow> None
      | Some s \<Rightarrow>
          if s = [] \<or> s = ''N.A.'' then None
          else (case try_formats formats s of
                  Some r \<Rightarrow> Some r
                | None \<Rightarrow> if dashed10 s then Some s else None))"

section \<open>The date-format repair pass\<close>

definition fix_formats :: "string list" where
  "fix_formats = [''%d %b %Y'', ''%Y-%m-%d'', ''%d-%m-%Y'', ''%d/%m/%Y'', ''%d-%b-%Y'',
                  ''%Y-%m-%d %H:%M:%S'']"

text \<open>
  \<open>parse_and_fix_date\<close> first validates a value of the canonical shape (any exception of
  that \<open>strptime\<close> is swallowed), then tries the formats, and returns a value that nothing
  parses as it is.
\<close>
definition parse_and_fix_date :: "cell \<Rightarrow> string option" where
  "parse_and_fix_date date_str =
     (case date_str of
        None \<Rightarrow> None
      | Some s \<Rightarrow>
          if s = [] \<or> s = ''N.A.'' then None
          else if dashed10 s
                  \<and> (case strptime s ''%Y-%m-%d'' of Inr dt \<Rightarrow> True | Inl e \<Rightarrow> False)
               then Some s
          else (case try_formats fix_formats s of
                  Some r \<Rightarrow> Some r
                | None \<Rightarrow> Some s))"

section \<open>Encodings of a calendar day\<close>

definition month_abbr :: "nat \<Rightarrow> string" where
  "month_abbr m = [''Jan'', ''Feb'', ''Mar'', ''Apr'', ''May'', ''Jun'',
                   ''Jul'', ''Aug'', ''Sep'', ''Oct'', ''Nov'', ''Dec''] ! (m - 1)"

text \<open>A day of the month is written with or without its leading zero.\<close>
definition day_text :: "nat \<Rightarrow> string \<Rightarrow> bool" where
  "day_text d t = (t = pad2 d \<or> (d < 10 \<and> t = [digit_char d]))"

text \<open>A month abbreviation is written in any mix of upper and lower case.\<close>
definition month_text :: "nat \<Rightarrow> string \<Rightarrow> bool" where
  "month_text m t = (1 \<le> m \<and> m \<le> 12 \<and> lower t = a_month ! (m - 1))"

text \<open>The canonical form \<open>YYYY-MM-DD\<close>.\<close>
definition canonical :: "nat \<Rightarrow> nat \<Rightarrow> nat \<Rightarrow> string" where
  "canonical y m d = pad4 y @ ''-'' @ pad2 m @ ''-'' @ pad2 d"

definition date_fields :: "nat \<Rightarrow> nat \<Rightarrow> nat \<Rightarrow> fields" where
  "date_fields y m d =
     \<lparr>f_year = y, f_month = m, f_day = d, f_hour = 0, f_minute = 0, f_second = 0\<rparr>"

definition all_digits :: "string \<Rightarrow> bool" where
  "all_digits s = (\<forall>c\<in>set s. is_digit c)"

definition month_letters :: string where
  "month_letters = ''abcdefgjlmnoprstuvy''"

section \<open>The identifier resolver\<close>

text \<open>
  The lookup service is a function from the company name in the request URL to the outcome
  of the HTTP request. A response body is not JSON (\<open>response.json()\<close> raises), or JSON
  that is not an object (\<open>data.get\<close> raises), or an object with its \<open>status\<close> and its
  \<open>data\<close>; an element of \<open>data\<close> is an object, read with \<open>sec.get\<close>, or something else,
  on which \<open>sec.get\<close> raises.
\<close>

record security =
  s_id :: "int option"
  symbol1 :: "string option"
  symbol2 :: "string option"
  s_isin :: "string option"
  market_code1 :: "string option"
  market_code2 :: "string option"
  s_company_name :: "string option"

datatype sec_entry = SecDict security | SecOther

datatype body = NoJson | JsonOther | Envelope "string option" "sec_entry list"

datatype http_outcome = Timeout | RequestFailed | Response nat "string option" body

text \<open>The dictionary that \<open>fetch_security_id\<close> returns.\<close>
record resolved =
  r_security_id :: "int option"
  r_symbol :: "string option"
  r_isin :: "string option"
  r_market_code :: "string option"
  r_company_name :: "string option"

text \<open>The module's \<open>_SECURITY_CACHE\<close>, and the requests sent so far.\<close>
record resolver_state =
  cache :: "string \<rightharpoonup> resolved"
  requests :: "string list"

text \<open>A company name inside an f-string: \<open>None\<close> prints as \<open>None\<close>.\<close>
definition fmt_name :: "cell \<Rightarrow> string" where
  "fmt_name c = (case c of None \<Rightarrow> ''None'' | Some s \<Rightarrow> s)"

text \<open>Python's \<open>a or b\<close>.\<close>
definition or_else :: "cell \<Rightarrow> cell \<Rightarrow> cell" where
  "or_else a b = (if truthy a then a else b)"

definition cache_key :: "cell \<Rightarrow> string option \<Rightarrow> string" where
  "cache_key company_name market_code =
     fmt_name company_name @ ''_'' @ fmt_name (or_else market_code (Some ''ANY''))"

definition make_result :: "security \<Rightarrow> string option \<Rightarrow> resolved" where
  "make_result sec mc =
     \<lparr>r_security_id = s_id sec,
      r_symbol = or_else (symbol1 sec) (symbol2 sec),
      r_isin = s_isin sec,
      r_market_code = mc,
      r_company_name = s_company_name sec\<rparr>"

text \<open>The loop over the securities that looks for the requested market.\<close>
fun find_market :: "string option \<Rightarrow> sec_entry list \<Rightarrow> py_error + resolved option" where
  "find_market mc [] = Inr None"
| "find_market mc (SecOther # secs) = Inl AttributeError"
| "find_market mc (SecDict sec # secs) =
     (if market_code1 sec = mc \<or> market_code2 sec = mc then Inr (Some (make_result sec mc))
      else find_market mc secs)"

text \<open>
  The body of the \<open>try\<close>: the request and the selection. \<open>Inl\<close> is an exception raised
  inside it, \<open>Inr None\<close> one of the early \<open>return None\<close>.
\<close>
definition lookup :: "(string \<Rightarrow> http_outcome) \<Rightarrow> cell \<Rightarrow> string option
    \<Rightarrow> py_error + resolved option" where
  "lookup svc name mc =
     (case svc (fmt_name name) of
        Timeout \<Rightarrow> Inl TimeoutError
      | RequestFailed \<Rightarrow> Inl ConnectionError
      | Response status ctype bdy \<Rightarrow>
          if status \<noteq> 200 then Inr None
          else if \<not> contains (case ctype of None \<Rightarrow> [] | Some c \<Rightarrow> c) ''application/json''
          then Inr None
          else (case bdy of
                  NoJson \<Rightarrow> Inl JSONDecodeError
                | JsonOther \<Rightarrow> Inl AttributeError
                | Envelope status' securities \<Rightarrow>
                    if status' \<noteq> Some ''success'' \<or> securities = [] then Inr None
                    else (case (if truthy mc then find_market mc securities else Inr None) of
                            Inl e \<Rightarrow> Inl e
                          | Inr (Some result) \<Rightarrow> Inr (Some result)
                          | Inr None \<Rightarrow>
                              (case hd securities of
                                 SecOther \<Rightarrow> Inl AttributeError
                               | SecDict sec \<Rightarrow>
                                   Inr (Some (make_result sec
                                     (or_else (or_else (market_code1 sec) (market_code2 sec)) mc)))))))"

text \<open>
  \<open>fetch_security_id\<close>: a cached entry is returned at once; otherwise the service is asked,
  every exception ends in \<open>return None\<close>, and only a result is written to the cache.
\<close>
definition fetch_security_id :: "(string \<Rightarrow> http_outcome) \<Rightarrow> cell \<Rightarrow> string option
    \<Rightarrow> resolver_state \<Rightarrow> resolved option \<times> resolver_state" where
  "fetch_security_id svc name mc st =
     (case cache st (cache_key name mc) of
        Some r \<Rightarrow> (Some r, st)
      | None \<Rightarrow>
          (let st1 = st\<lparr>requests := requests st @ [fmt_name name]\<rparr>
           in case lookup svc name mc of
                Inl e \<Rightarrow> (None, st1)
              | Inr None \<Rightarrow> (None, st1)
              | Inr (Some result) \<Rightarrow>
                  (Some result, st1\<lparr>cache := (cache st1)(cache_key name mc \<mapsto> result)\<rparr>)))"

text \<open>
  The loop of \<open>fetch_security_batch\<close>; \<open>idx\<close> counts from 1. The only statement outside
  \<open>fetch_security_id\<close> that can raise is \<open>time.sleep(delay)\<close>, on a negative delay.
\<close>
fun batch_loop :: "(string \<Rightarrow> http_outcome) \<Rightarrow> string option \<Rightarrow> real \<Rightarrow> nat \<Rightarrow> nat
    \<Rightarrow> cell list \<Rightarrow> (cell \<rightharpoonup> resolved) \<Rightarrow> resolver_state
    \<Rightarrow> (py_error + (cell \<rightharpoonup> resolved)) \<times> resolver_state" where
  "batch_loop svc mc delay n_total idx [] results st = (Inr results, st)"
| "batch_loop svc mc delay n_total idx (name # names) results st =
     (case fetch_security_id svc name mc st of
        (security_info, st') \<Rightarrow>
          (let results' = (case security_info of
                             Some info \<Rightarrow> results(name \<mapsto> info)
                           | None \<Rightarrow> results)
           in if idx < n_total \<and> delay < 0 then (Inl ValueError, st')
              else batch_loop svc mc delay n_total (Suc idx) names results' st'))"

definition fetch_security_batch :: "(string \<Rightarrow> http_outcome) \<Rightarrow> cell list \<Rightarrow> string option
    \<Rightarrow> real \<Rightarrow> resolver_state \<Rightarrow> (py_error + (cell \<rightharpoonup> resolved)) \<times> resolver_state" where
  "fetch_security_batch svc company_names mc delay st =
     batch_loop svc mc delay (length company_names) 1 company_names Map.empty st"

text \<open>The cache during a batch: an entry is one of the start, or the result of a lookup
  made in between for the key's name.\<close>
definition cache_grown :: "(string \<Rightarrow> http_outcome) \<Rightarrow> string option \<Rightarrow> resolver_state
    \<Rightarrow> resolver_state \<Rightarrow> bool" where
  "cache_grown svc mc st0 st =
     (\<forall>k. cache st k = cache st0 k
          \<or> (cache st0 k = None
              \<and> (\<exists>n r. cache st k = Some r \<and> k = cache_key n mc \<and> lookup svc n mc = Inr (Some r))))"

section \<open>The store\<close>

text \<open>
  A row of the table \<open>corporate_actions\<close>, without the columns that the store fills in
  (\<open>id\<close>, \<open>created_at\<close>) and the two that no code writes (\<open>old_face_value\<close>,
  \<open>new_face_value\<close>). \<open>'f\<close> is the type of Python's floats; \<open>raw_data\<close> holds the row
  that \<open>json.dumps\<close> serialises.
\<close>

record 'f action =
  act_company_name :: cell
  act_security_id :: "int option"
  act_market_code :: "string option"
  act_symbol :: "string option"
  act_isin :: "string option"
  action_type :: string
  announcement_date :: "string option"
  ex_date :: "string option"
  record_date :: "string option"
  final_date :: "string option"
  dividend_rate :: "'f option"
  dividend_type :: cell
  ratio_numerator :: "'f option"
  ratio_denominator :: "'f option"
  split_ratio :: "string option"
  rights_ratio_numerator :: "'f option"
  rights_ratio_denominator :: "'f option"
  rights_price :: "'f option"
  security_type :: cell
  raw_data :: "cell list"

text \<open>\<open>CorporateAction(...)\<close>: a column that the call does not name is \<open>None\<close>.\<close>
definition new_action :: "string \<Rightarrow> 'f action" where
  "new_action atype =
     \<lparr>act_company_name = None, act_security_id = None, act_market_code = None,
      act_symbol = None, act_isin = None, action_type = atype, announcement_date = None,
      ex_date = None, record_date = None, final_date = None, dividend_rate = None,
      dividend_type = None, ratio_numerator = None, ratio_denominator = None,
      split_ratio = None, rights_ratio_numerator = None, rights_ratio_denominator = None,
      rights_price = None, security_type = None, raw_data = []\<rparr>"

text \<open>
  The query \<open>db.query(CorporateAction).filter(company_name == .., action_type == ..,
  market_code == .., ex_date == ..).first()\<close>. The session is made with
  \<open>autoflush=False\<close>, so the query reads the committed rows only; a comparison with
  \<open>None\<close> is \<open>IS NULL\<close>.
\<close>
definition existing :: "'f action list \<Rightarrow> cell \<Rightarrow> string \<Rightarrow> string \<Rightarrow> string option \<Rightarrow> bool" where
  "existing db name atype market exd =
     (\<exists>a\<in>set db. act_company_name a = name \<and> action_type a = atype
                  \<and> act_market_code a = Some market \<and> ex_date a = exd)"

text \<open>
  Python's \<open>float\<close> is a parameter: \<open>to_float\<close> is \<open>float(s)\<close> on a string (\<open>None\<close> when it
  raises \<open>ValueError\<close>), \<open>float_truthy\<close> the truth value of a float, \<open>float_str\<close> its
  rendering in an f-string, and \<open>float_int32\<close> whether the store can round it to a 32-bit
  integer (false for \<open>nan\<close>, the infinities and the values out of that range).
\<close>
record 'f float_ops =
  to_float :: "string \<Rightarrow> 'f option"
  float_truthy :: "'f \<Rightarrow> bool"
  float_str :: "'f \<Rightarrow> string"
  float_int32 :: "'f \<Rightarrow> bool"

text \<open>
  The constraints of the table. The values are checked against the types of the columns
  first: a text longer than its \<open>String(n)\<close> column, and a value out of the range of an
  \<open>Integer\<close> column (\<open>security_id\<close>, and the two rights ratios, which the normalizer
  passes as floats), are a \<open>DataError\<close>. Then come \<open>nullable=False\<close> and the unique
  constraint \<open>uix_company_action_market_dates\<close>, which a \<open>NULL\<close> never violates; they are
  an \<open>IntegrityError\<close>.
\<close>

definition fits :: "nat \<Rightarrow> string option \<Rightarrow> bool" where
  "fits n c = (case c of None \<Rightarrow> True | Some s \<Rightarrow> length s \<le> n)"

definition int32 :: "int option \<Rightarrow> bool" where
  "int32 v = (case v of None \<Rightarrow> True | Some i \<Rightarrow> - 2147483648 \<le> i \<and> i \<le> 2147483647)"

definition int_column :: "('f, 'x) float_ops_scheme \<Rightarrow> 'f option \<Rightarrow> bool" where
  "int_column F v = (case v of None \<Rightarrow> True | Some x \<Rightarrow> float_int32 F x)"

definition columns_ok :: "('f, 'x) float_ops_scheme \<Rightarrow> 'f action \<Rightarrow> bool" where
  "columns_ok F a =
     (fits 500 (act_company_name a) \<and> int32 (act_security_id a)
      \<and> fits 10 (act_market_code a) \<and> fits 50 (act_symbol a) \<and> fits 50 (act_isin a)
      \<and> length (action_type a) \<le> 50 \<and> fits 50 (announcement_date a) \<and> fits 50 (ex_date a)
      \<and> fits 50 (record_date a) \<and> fits 50 (final_date a) \<and> fits 100 (dividend_type a)
      \<and> fits 50 (split_ratio a)
      \<and> int_column F (rights_ratio_numerator a) \<and> int_column F (rights_ratio_denominator a)
      \<and> fits 200 (security_type a))"

definition same_key :: "'f action \<Rightarrow> 'f action \<Rightarrow> bool" where
  "same_key a b =
     (act_company_name a = act_company_name b \<and> action_type a = action_type b
      \<and> act_market_code a \<noteq> None \<and> act_market_code a = act_market_code b
      \<and> announcement_date a \<noteq> None \<and> announcement_date a = announcement_date b
      \<and> ex_date a \<noteq> None \<and> ex_date a = ex_date b)"

text \<open>The flush at \<open>db.commit()\<close> inserts the pending rows in the order they were added.\<close>
fun flush :: "('f, 'x) float_ops_scheme \<Rightarrow> 'f action list \<Rightarrow> 'f action list
    \<Rightarrow> py_error + 'f action list" where
  "flush F db [] = Inr db"
| "flush F db (p # ps) =
     (if \<not> columns_ok F p then Inl DataError
      else if act_company_name p = None then Inl IntegrityError
      else if \<exists>a\<in>set db. same_key a p then Inl IntegrityError
      else flush F (db @ [p]) ps)"

section \<open>The record normalizers\<close>

text \<open>\<open>float(c) if c and c != 'N.A.' else None\<close>\<close>
definition num_field :: "('f, 'x) float_ops_scheme \<Rightarrow> cell \<Rightarrow> py_error + 'f option" where
  "num_field F c =
     (case c of
        None \<Rightarrow> Inr None
      | Some s \<Rightarrow>
          if s \<noteq> [] \<and> s \<noteq> ''N.A.''
          then (case to_float F s of None \<Rightarrow> Inl ValueError | Some v \<Rightarrow> Inr (Some v))
          else Inr None)"

text \<open>\<open>parse_date(c) if c else None\<close>\<close>
definition date_field :: "cell \<Rightarrow> string option" where
  "date_field c = (if truthy c then parse_date c else None)"

text \<open>\<open>parse_date(c) if c and c != 'N.A.' else None\<close>\<close>
definition date_field_na :: "cell \<Rightarrow> string option" where
  "date_field_na c = (if truthy c \<and> c \<noteq> Some ''N.A.'' then parse_date c else None)"

text \<open>\<open>c if c != 'N.A.' else None\<close>\<close>
definition unless_na :: "cell \<Rightarrow> cell" where
  "unless_na c = (if c \<noteq> Some ''N.A.'' then c else None)"

text \<open>\<open>security_info[k] if security_info else None\<close>\<close>
definition info_get :: "resolved option \<Rightarrow> (resolved \<Rightarrow> 'a option) \<Rightarrow> 'a option" where
  "info_get security_info k = (case security_info of None \<Rightarrow> None | Some info \<Rightarrow> k info)"

text \<open>
  The body of the loop of each normalizer, for a row that is long enough. \<open>Inl\<close> is an
  exception, which the loop catches; \<open>Inr None\<close> is the \<open>continue\<close> on an existing record;
  \<open>Inr (Some a)\<close> is the record given to \<open>db.add\<close>.
\<close>

definition bonus_row :: "('f, 'x) float_ops_scheme \<Rightarrow> string \<Rightarrow> (cell \<rightharpoonup> resolved)
    \<Rightarrow> 'f action list \<Rightarrow> cell list \<Rightarrow> py_error + 'f action option" where
  "bonus_row F market security_map db row =
     (let name = row ! 0;
          isin' = unless_na (row ! 1);
          security_type' = row ! 2;
          announcement_date' = date_field (row ! 3);
          ex_date' = date_field (row ! 4)
      in case num_field F (row ! 5) of Inl e \<Rightarrow> Inl e | Inr ratio_num \<Rightarrow>
         case num_field F (row ! 6) of Inl e \<Rightarrow> Inl e | Inr ratio_den \<Rightarrow>
         (let security_info = security_map name
          in if existing db name ''bonus'' market ex_date' then Inr None
             else Inr (Some ((new_action ''bonus'')
                    \<lparr>act_company_name := name,
                     act_security_id := info_get security_info r_security_id,
                     act_market_code := Some market,
                     act_symbol := info_get security_info r_symbol,
                     act_isin := isin',
                     announcement_date := announcement_date',
                     ex_date := ex_date',
                     final_date := ex_date',
                     ratio_numerator := ratio_num,
                     ratio_denominator := ratio_den,
                     security_type := security_type',
                     raw_data := row\<rparr>))))"

definition dividend_row :: "('f, 'x) float_ops_scheme \<Rightarrow> string \<Rightarrow> (cell \<rightharpoonup> resolved)
    \<Rightarrow> 'f action list \<Rightarrow> cell list \<Rightarrow> py_error + 'f action option" where
  "dividend_row F market security_map db row =
     (let name = row ! 0;
          announcement_date' = date_field (row ! 1);
          ex_date' = date_field (row ! 2)
      in case num_field F (row ! 3) of Inl e \<Rightarrow> Inl e | Inr dividend_rate' \<Rightarrow>
         (let dividend_type' = row ! 4;
              record_date' = date_field (row ! 5);
              security_info = security_map name
          in if existing db name ''dividend'' market ex_date' then Inr None
             else Inr (Some ((new_action ''dividend'')
                    \<lparr>act_company_name := name,
                     act_security_id := info_get security_info r_security_id,
                     act_market_code := Some market,
                     act_symbol := info_get security_info r_symbol,
                     act_isin := info_get security_info r_isin,
                     announcement_date := announcement_date',
                     ex_date := ex_date',
                     record_date := record_date',
                     final_date := ex_date',
                     dividend_rate := dividend_rate',
                     dividend_type := dividend_type',
                     raw_data := row\<rparr>))))"

text \<open>\<open>f"{ratio_num}:{ratio_den}" if ratio_num and ratio_den else None\<close>\<close>
definition split_ratio_of :: "('f, 'x) float_ops_scheme \<Rightarrow> 'f option \<Rightarrow> 'f option \<Rightarrow> string option" where
  "split_ratio_of F ratio_num ratio_den =
     (case (ratio_num, ratio_den) of
        (Some n, Some d) \<Rightarrow>
          if float_truthy F n \<and> float_truthy F d
          then Some (float_str F n @ '':'' @ float_str F d) else None
      | _ \<Rightarrow> None)"

definition split_row :: "('f, 'x) float_ops_scheme \<Rightarrow> string \<Rightarrow> (cell \<rightharpoonup> resolved)
    \<Rightarrow> 'f action list \<Rightarrow> cell list \<Rightarrow> py_error + 'f action option" where
  "split_row F market security_map db row =
     (let name = row ! 0;
          announcement_date' = parse_date (row ! 3);
          ex_date' = parse_date (row ! 4)
      in case num_field F (row ! 5) of Inl e \<Rightarrow> Inl e | Inr ratio_num \<Rightarrow>
         case num_field F (row ! 6) of Inl e \<Rightarrow> Inl e | Inr ratio_den \<Rightarrow>
         (let split_ratio' = split_ratio_of F ratio_num ratio_den;
              security_info = security_map name
          in if existing db name ''split'' market ex_date' then Inr None
             else Inr (Some ((new_action ''split'')
                    \<lparr>act_company_name := name,
                     act_security_id := info_get security_info r_security_id,
                     act_market_code := Some market,
                     act_symbol := info_get security_info r_symbol,
                     act_isin := info_get security_info r_isin,
                     announcement_date := announcement_date',
                     ex_date := ex_date',
                     final_date := ex_date',
                     ratio_numerator := ratio_num,
                     ratio_denominator := ratio_den,
                     split_ratio := split_ratio',
                     raw_data := row\<rparr>))))"

definition rights_row :: "('f, 'x) float_ops_scheme \<Rightarrow> string \<Rightarrow> (cell \<rightharpoonup> resolved)
    \<Rightarrow> 'f action list \<Rightarrow> cell list \<Rightarrow> py_error + 'f action option" where
  "rights_row F market security_map db row =
     (let name = row ! 0;
          announcement_date' = date_field_na (row ! 3);
          ex_date' = date_field_na (row ! 4)
      in case num_field F (row ! 7) of Inl e \<Rightarrow> Inl e | Inr rights_num \<Rightarrow>
         case num_field F (row ! 8) of Inl e \<Rightarrow> Inl e | Inr rights_den \<Rightarrow>
         case num_field F (row ! 6) of Inl e \<Rightarrow> Inl e | Inr rights_price' \<Rightarrow>
         (let security_info = security_map name
          in if existing db name ''rights'' market ex_date' then Inr None
             else Inr (Some ((new_action ''rights'')
                    \<lparr>act_company_name := name,
                     act_security_id := info_get security_info r_security_id,
                     act_market_code := Some market,
                     act_symbol := info_get security_info r_symbol,
                     act_isin := None,
                     announcement_date := announcement_date',
                     ex_date := ex_date',
                     final_date := ex_date',
                     rights_ratio_numerator := rights_num,
                     rights_ratio_denominator := rights_den,
                     rights_price := rights_price',
                     raw_data := row\<rparr>))))"

text \<open>The loop over the rows: a short row, a row that raises and a row whose record
  exists are skipped; the others are added to the session and counted.\<close>
fun rows_loop :: "nat \<Rightarrow> ('f action list \<Rightarrow> cell list \<Rightarrow> py_error + 'f action option)
    \<Rightarrow> 'f action list \<Rightarrow> cell list list \<Rightarrow> 'f action list \<Rightarrow> nat \<Rightarrow> 'f action list \<times> nat" where
  "rows_loop n row_fn db [] pending added_count = (pending, added_count)"
| "rows_loop n row_fn db (row # rows) pending added_count =
     (if row = [] \<or> length row < n then rows_loop n row_fn db rows pending added_count
      else (case row_fn db row of
              Inl e \<Rightarrow> rows_loop n row_fn db rows pending added_count
            | Inr None \<Rightarrow> rows_loop n row_fn db rows pending added_count
            | Inr (Some a) \<Rightarrow> rows_loop n row_fn db rows (pending @ [a]) (Suc added_count)))"

text \<open>
  A staged file: text that is not JSON, JSON that is not an object with the keys \<open>head\<close>
  and \<open>data\<close>, or such an object, whose \<open>data\<close> is a list of rows of cells.
\<close>
datatype file_content = NotJson | OtherJson
  | Table "cell list list" "cell list list"

text \<open>\<open>parse_json_file\<close>: \<open>json.load\<close> raises on text that is not JSON.\<close>
definition parse_json_file :: "file_content \<Rightarrow> py_error + (cell list list \<times> cell list list) option" where
  "parse_json_file f =
     (case f of
        NotJson \<Rightarrow> Inl JSONDecodeError
      | OtherJson \<Rightarrow> Inr None
      | Table headers rows \<Rightarrow> Inr (Some (headers, rows)))"

text \<open>\<open>list(set([row[0] for row in rows if row and len(row) > 0]))\<close>, in the order of the
  first occurrences.\<close>
definition unique_companies :: "cell list list \<Rightarrow> cell list" where
  "unique_companies rows = remdups (map (\<lambda>row. row ! 0) (filter (\<lambda>row. row \<noteq> []) rows))"

text \<open>
  What the four normalizers share: parse the file, resolve the company names, run the
  loop, commit. The result is the returned count or the exception that escapes, the state
  of the resolver and the committed rows.
\<close>
definition process_data :: "('f, 'x) float_ops_scheme \<Rightarrow> nat
    \<Rightarrow> (string \<Rightarrow> (cell \<rightharpoonup> resolved) \<Rightarrow> 'f action list \<Rightarrow> cell list \<Rightarrow> py_error + 'f action option)
    \<Rightarrow> (string \<Rightarrow> http_outcome) \<Rightarrow> file_content \<Rightarrow> string \<Rightarrow> resolver_state \<times> 'f action list
    \<Rightarrow> (py_error + nat) \<times> resolver_state \<times> 'f action list" where
  "process_data F n row_fn svc file market s =
     (case s of (rs, db) \<Rightarrow>
        (case parse_json_file file of
           Inl e \<Rightarrow> (Inl e, rs, db)
         | Inr None \<Rightarrow> (Inr 0, rs, db)
         | Inr (Some (headers, rows)) \<Rightarrow>
             (case fetch_security_batch svc (unique_companies rows) (Some market) (5 / 100) rs of
                (Inl e, rs') \<Rightarrow> (Inl e, rs', db)
              | (Inr security_map, rs') \<Rightarrow>
                  (case rows_loop n (row_fn market security_map) db rows [] 0 of
                     (pending, added_count) \<Rightarrow>
                       (case flush F db pending of
                          Inl e \<Rightarrow> (Inl e, rs', db)
                        | Inr db' \<Rightarrow> (Inr added_count, rs', db'))))))"

definition process_bonus_data where
  "process_bonus_data F = process_data F 7 (bonus_row F)"

definition process_dividend_data where
  "process_dividend_data F = process_data F 6 (dividend_row F)"

definition process_split_data where
  "process_split_data F = process_data F 7 (split_row F)"

definition process_rights_data where
  "process_rights_data F = process_data F 9 (rights_row F)"

text \<open>What the loop of a normalizer relies on in its body: whether the body raises depends
  on the row only; it skips exactly the rows whose record exists; and the record it builds
  has the key that the query looks for, and \<open>final_date\<close> equal to \<open>ex_date\<close>.\<close>
definition row_contract :: "string \<Rightarrow> (cell list \<Rightarrow> string option)
    \<Rightarrow> (string \<Rightarrow> (cell \<rightharpoonup> resolved) \<Rightarrow> 'f action list \<Rightarrow> cell list \<Rightarrow> py_error + 'f action option)
    \<Rightarrow> bool" where
  "row_contract atype exd row_fn =
     (\<forall>market sm db row.
        (\<forall>sm' db'. isl (row_fn market sm db row) = isl (row_fn market sm' db' row))
        \<and> (\<not> isl (row_fn market sm db row) \<longrightarrow>
             (row_fn market sm db row = Inr None) = existing db (row ! 0) atype market (exd row))
        \<and> (\<forall>a. row_fn market sm db row = Inr (Some a) \<longrightarrow>
               act_company_name a = row ! 0 \<and> action_type a = atype
               \<and> act_market_code a = Some market \<and> ex_date a = exd row
               \<and> final_date a = ex_date a))"

section \<open>The ingestion orchestrator\<close>

datatype handler = Bonus | Dividend | Split | Rights

definition run_handler :: "('f, 'x) float_ops_scheme \<Rightarrow> handler \<Rightarrow> (string \<Rightarrow> http_outcome)
    \<Rightarrow> file_content \<Rightarrow> string \<Rightarrow> resolver_state \<times> 'f action list
    \<Rightarrow> (py_error + nat) \<times> resolver_state \<times> 'f action list" where
  "run_handler F h =
     (case h of
        Bonus \<Rightarrow> process_bonus_data F
      | Dividend \<Rightarrow> process_dividend_data F
      | Split \<Rightarrow> process_split_data F
      | Rights \<Rightarrow> process_rights_data F)"

definition file_handlers :: "(string \<times> handler \<times> string) list" where
  "file_handlers =
     [(''bonus_nse'', Bonus, ''NSE''),
      (''bonus_bse'', Bonus, ''BSE''),
      (''dividend_nse'', Dividend, ''NSE''),
      (''dividend_bse'', Dividend, ''BSE''),
      (''splits_nse'', Split, ''NSE''),
      (''splits_bse'', Split, ''BSE''),
      (''rights_nse'', Rights, ''NSE'')]"

text \<open>\<open>stats[key] = stats.get(key, 0) + count\<close> on a dictionary that keeps the order of
  insertion.\<close>
definition stats_add :: "string \<Rightarrow> nat \<Rightarrow> (string \<times> nat) list \<Rightarrow> (string \<times> nat) list" where
  "stats_add key count stats =
     (if key \<in> fst ` set stats
      then map (\<lambda>(k, v). if k = key then (k, v + count) else (k, v)) stats
      else stats @ [(key, count)])"

text \<open>\<open>[f for f in os.listdir(tmp_dir) if f.endswith('.json') and file_pattern.lower() in
  f.lower()]\<close>\<close>
definition json_files :: "string \<Rightarrow> (string \<times> file_content) list \<Rightarrow> (string \<times> file_content) list" where
  "json_files file_pattern listing =
     filter (\<lambda>(f, c). endswith f ''.json'' \<and> contains (lower f) (lower file_pattern)) listing"

text \<open>The inner loop, over the files of one pattern. An exception of a handler is not
  caught here.\<close>
fun files_loop :: "('f, 'x) float_ops_scheme \<Rightarrow> (string \<Rightarrow> http_outcome) \<Rightarrow> string \<Rightarrow> handler
    \<Rightarrow> string \<Rightarrow> (string \<times> file_content) list \<Rightarrow> (string \<times> nat) list
    \<Rightarrow> resolver_state \<times> 'f action list
    \<Rightarrow> (py_error + (string \<times> nat) list) \<times> resolver_state \<times> 'f action list" where
  "files_loop F svc file_pattern h market [] stats s = (Inr stats, s)"
| "files_loop F svc file_pattern h market ((json_file, content) # files) stats s =
     (case run_handler F h svc content market s of
        (Inl e, s') \<Rightarrow> (Inl e, s')
      | (Inr count, s') \<Rightarrow>
          files_loop F svc file_pattern h market files
            (stats_add (file_pattern @ ''_'' @ market) count stats) s')"

text \<open>The outer loop, over \<open>file_handlers\<close>.\<close>
fun handlers_loop :: "('f, 'x) float_ops_scheme \<Rightarrow> (string \<Rightarrow> http_outcome)
    \<Rightarrow> (string \<times> handler \<times> string) list \<Rightarrow> (string \<times> file_content) list
    \<Rightarrow> (string \<times> nat) list \<Rightarrow> resolver_state \<times> 'f action list
    \<Rightarrow> (py_error + (string \<times> nat) list) \<times> resolver_state \<times> 'f action list" where
  "handlers_loop F svc [] listing stats s = (Inr stats, s)"
| "handlers_loop F svc ((file_pattern, h, market) # hs) listing stats s =
     (case files_loop F svc file_pattern h market (json_files file_pattern listing) stats s of
        (Inl e, s') \<Rightarrow> (Inl e, s')
      | (Inr stats', s') \<Rightarrow> handlers_loop F svc hs listing stats' s')"

text \<open>
  \<open>process_all_files\<close>: the staging directory is its listing, each file with its
  content, or \<open>None\<close> when the directory does not exist. The \<open>try\<close> has a \<open>finally\<close> and no
  \<open>except\<close>.
\<close>
definition process_all_files :: "('f, 'x) float_ops_scheme \<Rightarrow> (string \<Rightarrow> http_outcome)
    \<Rightarrow> (string \<times> file_content) list option \<Rightarrow> resolver_state \<times> 'f action list
    \<Rightarrow> (py_error + (string \<times> nat) list) \<times> resolver_state \<times> 'f action list" where
  "process_all_files F svc tmp_dir s =
     (case tmp_dir of
        None \<Rightarrow> (Inr [], s)
      | Some listing \<Rightarrow> handlers_loop F svc file_handlers listing [] s)"

section \<open>The retention sweeper\<close>

text \<open>
  A date is year, month and day. \<open>date - timedelta(days=n)\<close> steps back one day \<open>n\<close>
  times, and raises \<open>OverflowError\<close> before the first day of year 1.
\<close>
type_synonym date = "nat \<times> nat \<times> nat"

definition prev_day :: "date \<Rightarrow> date option" where
  "prev_day dt =
     (case dt of (y, m, d) \<Rightarrow>
        if 1 < d then Some (y, m, d - 1)
        else if 1 < m then Some (y, m - 1, days_in_month y (m - 1))
        else if 1 < y then Some (y - 1, 12, 31)
        else None)"

fun minus_days :: "date \<Rightarrow> nat \<Rightarrow> date option" where
  "minus_days dt 0 = Some dt"
| "minus_days dt (Suc n) = (case prev_day dt of None \<Rightarrow> None | Some dt' \<Rightarrow> minus_days dt' n)"

text \<open>\<open>.strftime('%Y-%m-%d')\<close> of a date.\<close>
definition render :: "date \<Rightarrow> string" where
  "render dt = (case dt of (y, m, d) \<Rightarrow> strftime_ymd (date_fields y m d))"

text \<open>The filter \<open>CorporateAction.final_date < cutoff_date\<close>: a comparison of strings,
  never true of \<open>NULL\<close>.\<close>
definition is_old :: "string \<Rightarrow> 'f action \<Rightarrow> bool" where
  "is_old cutoff_date a = (case final_date a of None \<Rightarrow> False | Some fd \<Rightarrow> fd < cutoff_date)"

text \<open>
  \<open>cleanup_old_records\<close>, given the date of \<open>datetime.now()\<close>: the count returned and the
  rows left. The exception of the date arithmetic is caught and gives 0.
\<close>
definition cleanup_old_records :: "date \<Rightarrow> nat \<Rightarrow> 'f action list \<Rightarrow> nat \<times> 'f action list" where
  "cleanup_old_records now days_old db =
     (case minus_days now days_old of
        None \<Rightarrow> (0, db)
      | Some cutoff \<Rightarrow>
          (let cutoff_date = render cutoff;
               old_records = filter (is_old cutoff_date) db;
               count = length old_records
           in if count = 0 then (0, db)
              else (count, filter (\<lambda>a. \<not> is_old cutoff_date a) db)))"

section \<open>The repair pass over the store\<close>

text \<open>One of the four blocks \<open>if record.x: fixed_date = parse_and_fix_date(record.x); if
  fixed_date != record.x: ...\<close>: the new value and whether it changed.\<close>
definition fix_field :: "string option \<Rightarrow> string option \<times> bool" where
  "fix_field v =
     (if truthy v
      then (let fixed_date = parse_and_fix_date v
            in if fixed_date \<noteq> v then (fixed_date, True) else (v, False))
      else (v, False))"

definition fix_record :: "'f action \<Rightarrow> 'f action \<times> bool" where
  "fix_record r =
     (case fix_field (announcement_date r) of (ad, u1) \<Rightarrow>
      case fix_field (ex_date r) of (ed, u2) \<Rightarrow>
      case fix_field (record_date r) of (rd, u3) \<Rightarrow>
      case fix_field (final_date r) of (fd, u4) \<Rightarrow>
        (r\<lparr>announcement_date := ad, ex_date := ed, record_date := rd, final_date := fd\<rparr>,
         u1 \<or> u2 \<or> u3 \<or> u4))"

text \<open>The commit writes the changed records one after the other; a record that now has
  the key of another row violates the unique constraint.\<close>
fun write_updates :: "'f action list \<Rightarrow> 'f action list \<Rightarrow> py_error + 'f action list" where
  "write_updates fixed [] = Inr fixed"
| "write_updates fixed (r # rest) =
     (case fix_record r of (r', updated) \<Rightarrow>
        if updated \<and> (\<exists>b\<in>set (fixed @ rest). same_key b r') then Inl IntegrityError
        else write_updates (fixed @ [r']) rest)"

text \<open>\<open>fix_database_dates\<close>: the number of records fixed and the rows afterwards; an
  exception is caught and the transaction rolled back.\<close>
definition fix_database_dates :: "'f action list \<Rightarrow> nat \<times> 'f action list" where
  "fix_database_dates db =
     (let fixed_count = length (filter (\<lambda>r. snd (fix_record r)) db)
      in if fixed_count > 0
         then (case write_updates [] db of
                 Inl e \<Rightarrow> (fixed_count, db)
               | Inr db' \<Rightarrow> (fixed_count, db'))
         else (fixed_count, db))"

text \<open>A date field that is absent or the canonical form of a calendar day.\<close>
definition date_ok :: "string option \<Rightarrow> bool" where
  "date_ok v = (v = None \<or> (\<exists>y m d. valid_date y m d \<and> v = Some (canonical y m d)))"

definition dates_canonical :: "'f action \<Rightarrow> bool" where
  "dates_canonical r =
     (date_ok (announcement_date r) \<and> date_ok (ex_date r)
      \<and> date_ok (record_date r) \<and> date_ok (final_date r))"

section \<open>The batch transport client's poll loop\<close>

text \<open>
  The provider is the sequence of the outcomes of the polls: \<open>requests.post\<close> raises, or
  gives a response with its \<open>Content-Type\<close> header and its content. \<open>clock i\<close> is the
  reading of \<open>time.time()\<close> in the \<open>elif\<close> of poll \<open>i\<close>. \<open>unzip\<close> is \<open>zipfile\<close>: the names
  and contents of the entries of an archive, or \<open>None\<close> when \<open>ZipFile\<close> raises
  \<open>BadZipFile\<close>. The staging directory maps a path to the content written there.
\<close>

record response =
  resp_content_type :: "string option"
  resp_content :: string

record poll_env =
  post :: "nat \<Rightarrow> py_error + response"
  clock :: "nat \<Rightarrow> real"
  start :: real
  unzip :: "string \<Rightarrow> (string \<times> string) list option"

definition TMP_DIR :: string where
  "TMP_DIR = ''./tmp''"

text \<open>\<open>os.path.basename\<close> and \<open>os.path.join\<close> of \<open>posixpath\<close>.\<close>
definition basename :: "string \<Rightarrow> string" where
  "basename p = rev (takeWhile (\<lambda>c. c \<noteq> CHR ''/'') (rev p))"

definition path_join :: "string \<Rightarrow> string \<Rightarrow> string" where
  "path_join a b =
     (if startswith b ''/'' then b
      else if a = [] \<or> endswith a ''/'' then a @ b
      else a @ ''/'' @ b)"

text \<open>\<open>"application/json" not in r.headers.get("Content-Type", "").lower() and
  r.content[:2] == b"PK"\<close>\<close>
definition is_archive :: "response \<Rightarrow> bool" where
  "is_archive r =
     (\<not> contains (lower (case resp_content_type r of None \<Rightarrow> [] | Some c \<Rightarrow> c)) ''application/json''
      \<and> take 2 (resp_content r) = ''PK'')"

text \<open>The loop over \<open>z.namelist()\<close>. Opening the output path of an entry whose base name
  is empty, a directory, raises.\<close>
fun extract_entries :: "(string \<times> string) list \<Rightarrow> string list \<Rightarrow> (string \<rightharpoonup> string)
    \<Rightarrow> py_error + string list \<times> (string \<rightharpoonup> string)" where
  "extract_entries [] files staged = Inr (files, staged)"
| "extract_entries ((name, bytes) # entries) files staged =
     (if endswith (lower name) ''.lst'' then extract_entries entries files staged
      else (let out_path = path_join TMP_DIR (basename name)
            in if basename name = [] then Inl IsADirectoryError
               else extract_entries entries (files @ [out_path]) (staged(out_path \<mapsto> bytes))))"

text \<open>The \<open>while True\<close> of \<open>get_batch\<close>, from poll \<open>i\<close> on. It may run forever: \<open>None\<close>
  is no return.\<close>
partial_function (option) poll_loop :: "poll_env \<Rightarrow> real \<Rightarrow> real \<Rightarrow> (string \<rightharpoonup> string) \<Rightarrow> nat
    \<Rightarrow> (py_error + string list \<times> (string \<rightharpoonup> string)) option" where
  "poll_loop env poll_interval timeout staged i =
     (case post env i of
        Inl e \<Rightarrow> Some (Inl e)
      | Inr r \<Rightarrow>
          if is_archive r then
            (case unzip env (resp_content r) of
               None \<Rightarrow> Some (Inl BadZipFile)
             | Some entries \<Rightarrow> Some (extract_entries entries [] staged))
          else if clock env i - start env > timeout then Some (Inl TimeoutError)
          else if poll_interval < 0 then Some (Inl ValueError)
          else poll_loop env poll_interval timeout staged (Suc i))"

definition get_batch :: "poll_env \<Rightarrow> real \<Rightarrow> real \<Rightarrow> (string \<rightharpoonup> string)
    \<Rightarrow> (py_error + string list \<times> (string \<rightharpoonup> string)) option" where
  "get_batch env poll_interval timeout staged = poll_loop env poll_interval timeout staged 0"

section \<open>Concrete inputs\<close>

text \<open>A resolver that has not been used yet.\<close>
definition fresh_resolver :: resolver_state where
  "fresh_resolver = \<lparr>cache = Map.empty, requests = []\<rparr>"

text \<open>A lookup service that answers every name with status 404.\<close>
definition service_404 :: "string \<Rightarrow> http_outcome" where
  "service_404 url_name = Response 404 None NoJson"

definition acme_security :: security where
  "acme_security =
     \<lparr>s_id = Some 123, symbol1 = Some ''ACME'', symbol2 = None, s_isin = Some ''INE000A01011'',
      market_code1 = Some ''NSE'', market_code2 = None, s_company_name = Some ''Acme Ltd''\<rparr>"

text \<open>A lookup service that knows \<open>A\<close> and \<open>C\<close>, and times out on every other name.\<close>
definition service_AC :: "string \<Rightarrow> http_outcome" where
  "service_AC url_name =
     (if url_name = ''A'' \<or> url_name = ''C''
      then Response 200 (Some ''application/json'')
             (Envelope (Some ''success'') [SecDict (acme_security\<lparr>s_company_name := Some url_name\<rparr>)])
      else Timeout)"

text \<open>Floats that are natural numbers, read from strings of digits.\<close>
definition nat_floats :: "nat float_ops" where
  "nat_floats =
     \<lparr>to_float = (\<lambda>s. if s \<noteq> [] \<and> list_all is_digit s then Some (int_of_digits s) else None),
      float_truthy = (\<lambda>n. n \<noteq> 0),
      float_str = (\<lambda>n. pad2 n),
      float_int32 = (\<lambda>n. int n \<le> 2147483647)\<rparr>"

text \<open>A lookup service that answers every name with the one security of Acme.\<close>
definition acme_service :: "string \<Rightarrow> http_outcome" where
  "acme_service url_name =
     Response 200 (Some ''application/json'') (Envelope (Some ''success'') [SecDict acme_security])"



definition acme_dividend_row :: "cell list" where
  "acme_dividend_row =
     [Some ''Acme Ltd'', Some ''17 Oct 2025'', Some ''20 Oct 2025'', Some ''5'', Some ''Interim'',
      Some ''22 Oct 2025'']"

text \<open>Two staging directories: a bonus file that is not JSON, or that is JSON of another
  shape, beside a well-formed dividend file.\<close>
definition staged_bad_json :: "(string \<times> file_content) list" where
  "staged_bad_json =
     [(''bonus_nse.json'', NotJson), (''dividend_nse.json'', Table [] [acme_dividend_row])]"

definition staged_other_json :: "(string \<times> file_content) list" where
  "staged_other_json =
     [(''bonus_nse.json'', OtherJson), (''dividend_nse.json'', Table [] [acme_dividend_row])]"

section \<open>Lemmas on the date parser\<close>

lemma is_digit_lits [simp]:
  "is_digit CHR ''0''" "is_digit CHR ''1''" "is_digit CHR ''2''" "is_digit CHR ''3''" "is_digit CHR ''4''"
  "is_digit CHR ''5''" "is_digit CHR ''6''" "is_digit CHR ''7''" "is_digit CHR ''8''" "is_digit CHR ''9''"
  by (simp_all add: is_digit_def)

lemma one_of_simps [simp]:
  "one_of P [] = []"
  "one_of P (c # r) = (if P c then [([c], r)] else [])"
  by (simp_all add: one_of_def)

lemmas re_defs = re_d_def re_m_def re_Y_def alt_def sq_def chr_def cls_def digit_def

lemma mod10_cases:
  "(n::nat) mod 10 = 0 \<or> n mod 10 = 1 \<or> n mod 10 = 2 \<or> n mod 10 = 3 \<or> n mod 10 = 4
   \<or> n mod 10 = 5 \<or> n mod 10 = 6 \<or> n mod 10 = 7 \<or> n mod 10 = 8 \<or> n mod 10 = 9"
  by arith

lemma is_digit_digit_char [simp]: "is_digit (digit_char n)"
  using mod10_cases [of n] by (elim disjE) (simp_all add: digit_char_def)

lemma digit_val_digit_char [simp]: "digit_val (digit_char n) = n mod 10"
  using mod10_cases [of n] by (elim disjE) (simp_all add: digit_char_def digit_val_def)

lemma is_digit_not_space: "is_digit c \<Longrightarrow> \<not> is_space c"
  unfolding is_digit_def by (elim disjE | simp add: is_space_def)+

lemma strip_id:
  assumes "s \<noteq> []" "\<not> is_space (hd s)" "\<not> is_space (last s)"
  shows "strip s = s"
proof -
  have a: "dropWhile is_space s = s"
    using assms by (simp add: dropWhile_eq_self_iff)
  have b: "dropWhile is_space (rev s) = rev s"
    using assms by (simp add: dropWhile_eq_self_iff hd_rev)
  show ?thesis by (simp add: strip_def a b)
qed

lemma digits4: 
  assumes "y < 10000"
  shows "10 * (10 * (10 * (y div 1000 mod 10) + y div 100 mod 10) + y div 10 mod 10) + y mod 10 = (y::nat)"
proof -
  define a1 where "a1 = y div 10"
  define a2 where "a2 = a1 div 10"
  define a3 where "a3 = a2 div 10"
  have e2: "y div 100 = a2" by (simp add: a1_def a2_def div_mult2_eq)
  have e3: "y div 1000 = a3" by (simp add: a1_def a2_def a3_def div_mult2_eq)
  have "a3 < 10" using assms unfolding e3 [symmetric] by simp
  then have m3: "a3 mod 10 = a3" by simp
  have s3: "10 * a3 + a2 mod 10 = a2" unfolding a3_def by simp
  have s2: "10 * a2 + a1 mod 10 = a1" unfolding a2_def by simp
  have s1: "10 * a1 + y mod 10 = y" unfolding a1_def by simp
  show ?thesis unfolding e2 e3 m3 a1_def [symmetric] s3 s2 s1 ..
qed

lemma digits2:
  assumes "n < 100"
  shows "10 * (n div 10 mod 10) + n mod 10 = (n::nat)"
proof -
  have "n div 10 < 10" using assms by simp
  then have "n div 10 mod 10 = n div 10" by simp
  then show ?thesis by simp
qed

lemma int_of_digits_pad4: "y < 10000 \<Longrightarrow> int_of_digits (pad4 y) = y"
proof -
  assume y: "y < 10000"
  have "strip (pad4 y) = pad4 y"
    by (rule strip_id) (simp_all add: pad4_def is_digit_not_space)
  moreover have "y div 1000 mod 10 = y div 1000" using y by simp
  ultimately show ?thesis using digits4 [OF y] by (simp add: int_of_digits_def pad4_def)
qed

lemma int_of_digits_pad2: "n < 100 \<Longrightarrow> int_of_digits (pad2 n) = n"
proof -
  assume n: "n < 100"
  have "strip (pad2 n) = pad2 n"
    by (rule strip_id) (simp_all add: pad2_def is_digit_not_space)
  then show ?thesis using digits2 [OF n] by (simp add: int_of_digits_def pad2_def)
qed

lemma int_of_digits_one: "n < 10 \<Longrightarrow> int_of_digits [digit_char n] = n"
proof -
  assume n: "n < 10"
  have "strip [digit_char n] = [digit_char n]"
    by (rule strip_id) (simp_all add: is_digit_not_space)
  then show ?thesis using n by (simp add: int_of_digits_def)
qed

lemma re_Y_pad4: "re_Y (pad4 y @ r) = [(pad4 y, r)]"
  by (simp add: re_defs pad4_def)

lemma day_cases:
  assumes "1 \<le> d" "d \<le> 31"
  shows "d = 1 \<or> d = 2 \<or> d = 3 \<or> d = 4 \<or> d = 5 \<or> d = 6 \<or> d = 7 \<or> d = 8 \<or> d = 9 \<or> d = 10
    \<or> d = 11 \<or> d = 12 \<or> d = 13 \<or> d = 14 \<or> d = 15 \<or> d = 16 \<or> d = 17 \<or> d = 18 \<or> d = 19 \<or> d = 20
    \<or> d = 21 \<or> d = 22 \<or> d = 23 \<or> d = 24 \<or> d = 25 \<or> d = 26 \<or> d = 27 \<or> d = 28 \<or> d = 29 \<or> d = 30
    \<or> d = (31::nat)"
  using assms by arith

lemma month_cases:
  assumes "1 \<le> m" "m \<le> 12"
  shows "m = 1 \<or> m = 2 \<or> m = 3 \<or> m = 4 \<or> m = 5 \<or> m = 6 \<or> m = 7 \<or> m = 8 \<or> m = 9 \<or> m = 10
    \<or> m = 11 \<or> m = (12::nat)"
  using assms by arith

lemma not_digit_neq:
  assumes "\<not> is_digit c"
  shows "c \<noteq> CHR ''0''" "c \<noteq> CHR ''1''" "c \<noteq> CHR ''2''" "c \<noteq> CHR ''3''" "c \<noteq> CHR ''4''"
    "c \<noteq> CHR ''5''" "c \<noteq> CHR ''6''" "c \<noteq> CHR ''7''" "c \<noteq> CHR ''8''" "c \<noteq> CHR ''9''"
    "CHR ''0'' \<noteq> c" "CHR ''1'' \<noteq> c" "CHR ''2'' \<noteq> c" "CHR ''3'' \<noteq> c" "CHR ''4'' \<noteq> c"
    "CHR ''5'' \<noteq> c" "CHR ''6'' \<noteq> c" "CHR ''7'' \<noteq> c" "CHR ''8'' \<noteq> c" "CHR ''9'' \<noteq> c"
  using assms by (auto simp: is_digit_def)


lemma re_d_pad2_nil:
  assumes "1 \<le> d" "d \<le> 31"
  shows "re_d (pad2 d) =
           (pad2 d, []) # (if 10 \<le> d then [([digit_char (d div 10)], [digit_char d])] else [])"
  using day_cases [OF assms(1,2)]
  by (elim disjE; simp add: pad2_def digit_char_def re_defs)


lemma re_d_one_nil:
  assumes "1 \<le> d" "d < 10"
  shows "re_d [digit_char d] = [([digit_char d], [])]"
proof -
  have "d \<le> 31" using assms by simp
  from day_cases [OF assms(1) this] show ?thesis using assms(2)
    by (elim disjE; simp add: digit_char_def re_defs)
qed

lemma re_m_pad2_cons:
  assumes "1 \<le> m" "m \<le> 12" "\<not> is_digit c"
  shows "re_m (pad2 m @ c # r) =
           (pad2 m, c # r) # (if 10 \<le> m then [([digit_char (m div 10)], digit_char m # c # r)] else [])"
  using month_cases [OF assms(1,2)]
  by (elim disjE; simp add: pad2_def digit_char_def re_defs not_digit_neq [OF assms(3)] assms(3))


lemma compile_formats [simp]:
  "compile_format ''%d %b %Y'' = Some [Dir_d, Spaces, Dir_b, Spaces, Dir_Y]"
  "compile_format ''%Y-%m-%d'' = Some [Dir_Y, Lit CHR ''-'', Dir_m, Lit CHR ''-'', Dir_d]"
  "compile_format ''%d-%m-%Y'' = Some [Dir_d, Lit CHR ''-'', Dir_m, Lit CHR ''-'', Dir_Y]"
  "compile_format ''%d/%m/%Y'' = Some [Dir_d, Lit CHR ''/'', Dir_m, Lit CHR ''/'', Dir_Y]"
  "compile_format ''%d-%b-%Y'' = Some [Dir_d, Lit CHR ''-'', Dir_b, Lit CHR ''-'', Dir_Y]"
  "compile_format ''%Y-%m-%d %H:%M:%S'' =
     Some [Dir_Y, Lit CHR ''-'', Dir_m, Lit CHR ''-'', Dir_d, Spaces,
           Dir_H, Lit CHR '':'', Dir_M, Lit CHR '':'', Dir_S]"
  by (simp_all add: is_space_def)

lemma day_text_int: "1 \<le> d \<Longrightarrow> d \<le> 31 \<Longrightarrow> day_text d t \<Longrightarrow> int_of_digits t = d"
  by (auto simp: day_text_def int_of_digits_pad2 int_of_digits_one)

lemma mf_Lit: "match_format (Lit c # ds) (f, c # r) = match_format ds (f, r)"
  by (simp add: match_directive_def chr_def)

lemma mf_Y:
  "y < 10000 \<Longrightarrow> match_format (Dir_Y # ds) (f, pad4 y @ r) = match_format ds (f\<lparr>f_year := y\<rparr>, r)"
  by (simp add: match_directive_def re_Y_pad4 int_of_digits_pad4)

lemma mf_m_Lit:
  assumes "1 \<le> m" "m \<le> 12" "\<not> is_digit c"
  shows "match_format (Dir_m # Lit c # ds) (f, pad2 m @ c # r) = match_format ds (f\<lparr>f_month := m\<rparr>, r)"
proof -
  have "m < 100" using assms by simp
  then show ?thesis
    using not_digit_neq [OF assms(3)] is_digit_digit_char [of m] assms(3)
    by (auto simp: match_directive_def re_m_pad2_cons [OF assms] int_of_digits_pad2 chr_def)
qed





lemma mf_d_end:
  assumes "1 \<le> d" "d \<le> 31" "day_text d t"
  shows "\<exists>extra. match_format [Dir_d] (f, t) = (f\<lparr>f_day := d\<rparr>, []) # extra"
proof -
  have i: "int_of_digits t = d" by (rule day_text_int [OF assms(1-3)])
  from assms(3) consider "t = pad2 d" | "d < 10" "t = [digit_char d]"
    by (auto simp: day_text_def)
  then show ?thesis
  proof cases
    case 1
    then show ?thesis
      using i by (simp add: match_directive_def re_d_pad2_nil [OF assms(1,2)])
  next
    case 2
    then show ?thesis
      using i by (simp add: match_directive_def re_d_one_nil [OF assms(1) 2(1)])
  qed
qed

lemma a_month_letters: "n \<in> set a_month \<Longrightarrow> set n \<subseteq> set month_letters"
  by (auto simp: a_month_def month_letters_def)


lemma lower_char_plain:
  assumes "is_space c \<or> is_digit c \<or> c = CHR ''/'' \<or> c = CHR ''-''"
  shows "lower_char c = c"
  using assms by (auto simp: lower_char_def is_space_def is_digit_def Let_def)

lemma letter_plain:
  assumes "c \<in> set month_letters"
  shows "\<not> is_space c" "\<not> is_digit c" "c \<noteq> CHR ''/''" "c \<noteq> CHR ''-''"
  using assms by (auto simp: month_letters_def is_space_def is_digit_def)

lemma lower_letter:
  assumes "lower_char c \<in> set month_letters"
  shows "\<not> is_space c \<and> \<not> is_digit c \<and> c \<noteq> CHR ''/'' \<and> c \<noteq> CHR ''-''"
  using assms lower_char_plain [of c] letter_plain [of c] by metis




lemma month_abbr_text: "1 \<le> m \<Longrightarrow> m \<le> 12 \<Longrightarrow> month_text m (month_abbr m)"
  unfolding month_text_def
  by (drule (1) month_cases)
     (elim disjE; simp add: month_abbr_def a_month_def lower_def lower_char_def char_of_eq_iff)

lemma re_d_rest:
  assumes "(t, r) \<in> set (re_d s)"
  shows "r = drop 1 s \<or> r = drop 2 s"
proof (cases s)
  case Nil
  with assms show ?thesis by (simp add: re_defs)
next
  case (Cons a s')
  show ?thesis
  proof (cases s')
    case Nil
    with Cons assms show ?thesis by (auto simp: re_defs split: if_splits)
  next
    case (Cons b s'')
    with \<open>s = a # s'\<close> assms show ?thesis by (auto simp: re_defs split: if_splits)
  qed
qed

lemma re_d_set_rest: "(t, r) \<in> set (re_d s) \<Longrightarrow> set r \<subseteq> set s"
  by (drule re_d_rest) (auto dest: in_set_dropD)

lemma mf_d_Spaces_none:
  assumes "\<forall>c\<in>set s. \<not> is_space c"
  shows "match_format (Dir_d # Spaces # ds) (f, s) = []"
proof -
  have "re_spaces r = []" if "(t, r) \<in> set (re_d s)" for t r
  proof -
    from re_d_set_rest [OF that] assms have "\<forall>c\<in>set r. \<not> is_space c" by blast
    then have "takeWhile is_space r = []" by (cases r) simp_all
    then show ?thesis by (simp add: re_spaces_def)
  qed
  then show ?thesis by (auto simp: match_directive_def)
qed

lemma mf_d_Lit_none:
  assumes "x \<notin> set s"
  shows "match_format (Dir_d # Lit x # ds) (f, s) = []"
proof -
  have "chr x r = []" if "(t, r) \<in> set (re_d s)" for t r
  proof -
    from re_d_set_rest [OF that] assms have "x \<notin> set r" by blast
    then show ?thesis by (cases r) (auto simp: chr_def)
  qed
  then show ?thesis by (auto simp: match_directive_def)
qed

lemma re_Y_shape:
  "re_Y s = (case s of a # b # c # d # r \<Rightarrow>
               if is_digit a \<and> is_digit b \<and> is_digit c \<and> is_digit d then [([a, b, c, d], r)] else []
             | _ \<Rightarrow> [])"
  by (simp add: re_defs split: list.splits)

lemma mf_Y_none:
  assumes "i < 4" "i < length s" "\<not> is_digit (s ! i)"
  shows "match_format (Dir_Y # ds) (f, s) = []"
proof -
  have "re_Y s = []"
  proof (rule ccontr)
    assume "re_Y s \<noteq> []"
    then obtain a b c d r where s: "s = a # b # c # d # r"
      and dg: "is_digit a" "is_digit b" "is_digit c" "is_digit d"
      unfolding re_Y_shape by (auto split: list.splits if_splits)
    from assms(1) have "i = 0 \<or> i = 1 \<or> i = 2 \<or> i = 3" by arith
    with assms(3) s dg show False by auto
  qed
  then show ?thesis by (simp add: match_directive_def)
qed


lemma year_digits_pad4: "1000 \<le> y \<Longrightarrow> year_digits y = pad4 y"
  by (simp add: year_digits_def)


lemma valid_date_fields: "valid_date y m d \<Longrightarrow> valid_fields (date_fields y m d)"
  by (simp add: valid_fields_def date_fields_def)

lemma valid_date_bounds:
  assumes "valid_date y m d"
  shows "y < 10000" "1 \<le> m" "m \<le> 12" "1 \<le> d" "d \<le> 31"
  using assms by (auto simp: valid_date_def days_in_month_def split: if_splits)

lemma is_digit_plain: "\<not> is_digit CHR ''-''" "\<not> is_digit CHR ''/''" "\<not> is_digit CHR '' ''"
  by (simp_all add: is_digit_def)


lemma strptime_I:
  "compile_format fmt = Some ds \<Longrightarrow> match_format ds (default_fields, s) = (f, []) # extra
   \<Longrightarrow> valid_fields f \<Longrightarrow> strptime s fmt = Inr f"
  by (simp add: strptime_def)

lemma strptime_E:
  "compile_format fmt = Some ds \<Longrightarrow> match_format ds (default_fields, s) = []
   \<Longrightarrow> strptime s fmt = Inl ValueError"
  by (simp add: strptime_def)

lemma strptime_ymd:
  assumes "valid_date y m d"
  shows "strptime (canonical y m d) ''%Y-%m-%d'' = Inr (date_fields y m d)"
proof -
  note b = valid_date_bounds [OF assms]
  have dt: "day_text d (pad2 d)" by (simp add: day_text_def)
  obtain extra where
    "match_format [Dir_d] (default_fields\<lparr>f_year := y, f_month := m\<rparr>, pad2 d)
       = (default_fields\<lparr>f_year := y, f_month := m, f_day := d\<rparr>, []) # extra"
    using mf_d_end [OF b(4,5) dt] by auto
  then have "match_format [Dir_Y, Lit CHR ''-'', Dir_m, Lit CHR ''-'', Dir_d]
               (default_fields, canonical y m d)
             = (date_fields y m d, []) # extra"
    by (simp add: canonical_def mf_Y [OF b(1)] mf_Lit mf_m_Lit [OF b(2,3) is_digit_plain(1)]
        default_fields_def date_fields_def del: match_format.simps(2))
  then show ?thesis
    by (rule strptime_I [OF compile_formats(2) _ valid_date_fields [OF assms]])
qed





lemma all_digits_pad [simp]: "all_digits (pad2 n)" "all_digits (pad4 n)"
  by (simp_all add: all_digits_def pad2_def pad4_def)


lemma digit_plain:
  assumes "is_digit c"
  shows "\<not> is_space c" "c \<noteq> CHR ''-''" "c \<noteq> CHR ''/''" "c \<noteq> CHR ''N''"
  using assms by (auto simp: is_digit_def is_space_def)

lemma sep_plain: "\<not> is_space CHR ''-''" "\<not> is_space CHR ''/''"
  by (simp_all add: is_space_def)

text \<open>An encoding starts and ends with a digit, so stripping leaves it alone.\<close>
lemma strip_enc:
  assumes "all_digits t" "t \<noteq> []" "is_digit (last (t @ r))"
  shows "strip (t @ r) = t @ r"
proof (rule strip_id)
  show "t @ r \<noteq> []" using assms(2) by simp
  show "\<not> is_space (hd (t @ r))"
    using assms(1,2) by (cases t) (auto simp: all_digits_def digit_plain(1))
  show "\<not> is_space (last (t @ r))" using assms(3) by (rule digit_plain(1))
qed

lemma last_pad [simp]: "last (pad4 y) = digit_char y" "last (pad2 y) = digit_char y"
  "pad4 y \<noteq> []" "pad2 y \<noteq> []"
  by (simp_all add: pad4_def pad2_def)

lemma enc_not_sentinel:
  assumes "all_digits t" "t \<noteq> []"
  shows "t @ r \<noteq> []" "t @ r \<noteq> ''N.A.''"
  using assms by (cases t; auto simp: all_digits_def dest: digit_plain(4))+

lemma no_space_fmt1:
  assumes "\<forall>c\<in>set s. \<not> is_space c"
  shows "strptime s ''%d %b %Y'' = Inl ValueError"
  by (rule strptime_E [OF compile_formats(1) mf_d_Spaces_none [OF assms]])



lemma no_slash_fmt4:
  assumes "CHR ''/'' \<notin> set s"
  shows "strptime s ''%d/%m/%Y'' = Inl ValueError"
  by (rule strptime_E [OF compile_formats(4) mf_d_Lit_none [OF assms]])





lemma all_digits_plain:
  assumes "all_digits t"
  shows "\<forall>c\<in>set t. \<not> is_space c" "CHR ''-'' \<notin> set t" "CHR ''/'' \<notin> set t"
  using assms digit_plain unfolding all_digits_def by blast+

lemmas pad_plain = all_digits_plain [OF all_digits_pad(1)] all_digits_plain [OF all_digits_pad(2)]

lemma digit_start_not_sentinel:
  assumes "all_digits t" "t \<noteq> []"
  shows "t @ r \<noteq> []" "t @ r \<noteq> ''N.A.''"
proof -
  from assms obtain a t' where t: "t = a # t'" and a: "is_digit a"
    by (cases t) (auto simp: all_digits_def)
  show "t @ r \<noteq> []" by (simp add: t)
  show "t @ r \<noteq> ''N.A.''" using digit_plain(4) [OF a] by (simp add: t)
qed






section \<open>The repair pass is idempotent\<close>

lemma dashed10_canonical: "dashed10 (canonical y m d)"
  by (simp add: dashed10_def canonical_def pad4_def pad2_def)

lemma canonical_not_sentinel: "canonical y m d \<noteq> []" "canonical y m d \<noteq> ''N.A.''"
  unfolding canonical_def by (rule digit_start_not_sentinel; simp)+

lemma strftime_canonical:
  "1000 \<le> f_year f \<Longrightarrow> strftime_ymd f = canonical (f_year f) (f_month f) (f_day f)"
  by (simp add: strftime_ymd_def canonical_def year_digits_pad4)

lemma try_formats_result:
  "try_formats fmts s = Some r \<Longrightarrow> \<exists>f. valid_fields f \<and> r = strftime_ymd f"
proof (induction fmts)
  case Nil
  then show ?case by simp
next
  case (Cons fmt fmts)
  show ?case
  proof (cases "strptime (strip s) fmt")
    case (Inl e)
    with Cons show ?thesis by simp
  next
    case (Inr f)
    then have "valid_fields f"
      by (auto simp: strptime_def split: option.splits list.splits if_splits)
    with Inr Cons.prems show ?thesis by auto
  qed
qed

lemma try_formats_None: "try_formats fmts s = None \<longleftrightarrow> (\<forall>fmt\<in>set fmts. isl (strptime (strip s) fmt))"
  by (induction fmts) (auto split: sum.splits)


lemma parse_and_fix_canonical:
  assumes "valid_date y m d"
  shows "parse_and_fix_date (Some (canonical y m d)) = Some (canonical y m d)"
  using strptime_ymd [OF assms] dashed10_canonical canonical_not_sentinel
  by (simp add: parse_and_fix_date_def)

lemma year_digits_props:
  "all_digits (year_digits y)" "year_digits y \<noteq> []"
  "y < 1000 \<Longrightarrow> length (year_digits y) < 4"
  by (simp_all add: year_digits_def all_digits_def pad4_def)

lemma re_b_digit: 
  assumes "is_digit c"
  shows "re_b (c # r) = []"
proof -
  have "lower (take 3 (c # r)) \<notin> set a_month"
  proof
    assume "lower (take 3 (c # r)) \<in> set a_month"
    from a_month_letters [OF this] have "lower_char c \<in> set month_letters"
      by (simp add: lower_def)
    from lower_letter [OF this] assms show False by simp
  qed
  then show ?thesis by (simp add: re_b_def)
qed

lemma mf_b_digit: "is_digit c \<Longrightarrow> match_format (Dir_b # ds) (f, c # r) = []"
  by (simp add: match_directive_def re_b_digit)

lemma mf_Y_short:
  assumes "length s < 4"
  shows "match_format (Dir_Y # ds) (f, s) = []"
proof -
  have "re_Y s = []" using assms by (auto simp: re_Y_shape split: list.splits)
  then show ?thesis by (simp add: match_directive_def)
qed

lemma drop_digits_sep:
  assumes "all_digits t" "t \<noteq> []" "\<not> is_digit c" "is_digit a" "k = 1 \<or> k = 2"
  shows "chr c (drop k (t @ c # a # r)) = [] \<or> drop k (t @ c # a # r) = c # a # r"
proof -
  from assms(3,4) have ac: "a \<noteq> c" by auto
  from assms(1,2) obtain x t1 where t: "t = x # t1" and x: "is_digit x" and t1: "all_digits t1"
    by (cases t) (auto simp: all_digits_def)
  show ?thesis
  proof (cases t1)
    case Nil
    with t assms(5) ac show ?thesis by (auto simp: chr_def)
  next
    case (Cons y t2)
    with t1 have y: "y \<noteq> c" "all_digits t2" using assms(3) by (auto simp: all_digits_def)
    show ?thesis
    proof (cases t2)
      case Nil
      with Cons t assms(5) y show ?thesis by (auto simp: chr_def)
    next
      case c2: (Cons z t3)
      with y(2) have "z \<noteq> c" using assms(3) by (auto simp: all_digits_def)
      with c2 Cons t assms(5) y show ?thesis by (auto simp: chr_def)
    qed
  qed
qed

lemma mf_d_Lit_digits:
  assumes "all_digits t" "t \<noteq> []" "\<not> is_digit c" "is_digit a"
    and "\<And>f'. match_format ds (f', a # r) = []"
  shows "match_format (Dir_d # Lit c # ds) (f, t @ c # a # r) = []"
proof -
  have *: "match_format (Lit c # ds) (f', r0) = []"
    if "(u, r0) \<in> set (re_d (t @ c # a # r))" for u r0 f'
  proof -
    from re_d_rest [OF that]
    have "chr c r0 = [] \<or> r0 = c # a # r"
      using drop_digits_sep [OF assms(1-4), of 1 r] drop_digits_sep [OF assms(1-4), of 2 r]
      by auto
    then show ?thesis
    proof
      assume "chr c r0 = []"
      then show ?thesis by (simp add: match_directive_def)
    next
      assume "r0 = c # a # r"
      then show ?thesis using assms(5) by (simp add: mf_Lit del: match_format.simps(2))
    qed
  qed
  have "match_format (Dir_d # Lit c # ds) (f, t @ c # a # r)
          = concat (map (match_format (Lit c # ds)) (match_directive Dir_d (f, t @ c # a # r)))"
    by (rule match_format.simps(2))
  also have "\<dots> = []"
    using * by (auto simp: match_directive_def simp del: match_format.simps)
  finally show ?thesis .
qed

text \<open>
  A date of a year before 1000 is rendered with fewer than four year digits. No format
  parses that text again: the formats that start with \<open>%Y\<close> find a dash among the first
  four characters, those that end with \<open>%Y\<close> find no more than the two digits of the day
  or no separator of theirs.
\<close>
lemma short_year_unparsed:
  assumes "all_digits yd" "yd \<noteq> []" "length yd < 4" "1 \<le> m" "m \<le> 12"
    and s_def: "s = yd @ ''-'' @ pad2 m @ ''-'' @ pad2 d"
  shows "strip s = s" "\<forall>fmt\<in>set fix_formats. isl (strptime s fmt)"
proof -
  have e: "s = yd @ CHR ''-'' # digit_char (m div 10) # digit_char m # CHR ''-'' # pad2 d"
    by (simp add: s_def pad2_def)
  show st: "strip s = s" unfolding s_def using assms(1,2) by (intro strip_enc) simp_all
  have "\<forall>c\<in>set s. \<not> is_space c"
    using all_digits_plain(1) [OF assms(1)] by (simp add: s_def pad_plain sep_plain ball_Un)
  then have 1: "strptime s ''%d %b %Y'' = Inl ValueError" by (rule no_space_fmt1)
  have y: "match_format (Dir_Y # ds) (default_fields, s) = []" for ds
    using assms(3) by (intro mf_Y_none [where i = "length yd"]) (simp_all add: s_def is_digit_plain)
  have 2: "strptime s ''%Y-%m-%d'' = Inl ValueError"
    by (rule strptime_E [OF compile_formats(2) y])
  have 6: "strptime s ''%Y-%m-%d %H:%M:%S'' = Inl ValueError"
    by (rule strptime_E [OF compile_formats(6) y])
  have "match_format [Dir_m, Lit CHR ''-'', Dir_Y]
          (f', digit_char (m div 10) # digit_char m # CHR ''-'' # pad2 d) = []" for f'
    using mf_m_Lit [OF assms(4,5) is_digit_plain(1), of "[Dir_Y]" f' "pad2 d"]
    by (simp add: pad2_def mf_Y_short del: match_format.simps(2))
  then have "match_format [Dir_d, Lit CHR ''-'', Dir_m, Lit CHR ''-'', Dir_Y] (default_fields, s) = []"
    unfolding e by (intro mf_d_Lit_digits assms(1,2) is_digit_plain) simp_all
  then have 3: "strptime s ''%d-%m-%Y'' = Inl ValueError"
    by (rule strptime_E [OF compile_formats(3)])
  have "CHR ''/'' \<notin> set s"
    using all_digits_plain(3) [OF assms(1)] by (simp add: s_def pad_plain)
  then have 4: "strptime s ''%d/%m/%Y'' = Inl ValueError" by (rule no_slash_fmt4)
  have "match_format [Dir_d, Lit CHR ''-'', Dir_b, Lit CHR ''-'', Dir_Y] (default_fields, s) = []"
    unfolding e by (intro mf_d_Lit_digits assms(1,2) is_digit_plain mf_b_digit) simp_all
  then have 5: "strptime s ''%d-%b-%Y'' = Inl ValueError"
    by (rule strptime_E [OF compile_formats(5)])
  show "\<forall>fmt\<in>set fix_formats. isl (strptime s fmt)"
    by (simp add: fix_formats_def 1 2 3 4 5 6)
qed

lemma parse_and_fix_short_year:
  assumes "valid_fields f" "f_year f < 1000"
  shows "parse_and_fix_date (Some (strftime_ymd f)) = Some (strftime_ymd f)"
proof -
  let ?s = "strftime_ymd f"
  from assms(1) have m: "1 \<le> f_month f" "f_month f \<le> 12"
    by (simp_all add: valid_fields_def valid_date_def)
  note yd = year_digits_props [of "f_year f"]
  note u = short_year_unparsed [OF yd(1,2) yd(3) [OF assms(2)] m strftime_ymd_def]
  have "try_formats fix_formats ?s = None"
    unfolding try_formats_None u(1) by (rule u(2))
  moreover have "\<not> dashed10 ?s"
    using yd(3) [OF assms(2)] by (simp add: dashed10_def strftime_ymd_def pad2_def)
  moreover have "?s \<noteq> []" "?s \<noteq> ''N.A.''"
    unfolding strftime_ymd_def by (rule digit_start_not_sentinel [OF yd(1,2)])+
  ultimately show ?thesis by (simp add: parse_and_fix_date_def)
qed

text \<open>What a format parses is rendered as a text that the repair leaves alone.\<close>
lemma parse_and_fix_rendered:
  assumes "valid_fields f"
  shows "parse_and_fix_date (Some (strftime_ymd f)) = Some (strftime_ymd f)"
proof (cases "f_year f < 1000")
  case True
  with assms show ?thesis by (rule parse_and_fix_short_year)
next
  case False
  then have "strftime_ymd f = canonical (f_year f) (f_month f) (f_day f)"
    by (simp add: strftime_canonical)
  moreover from assms have "valid_date (f_year f) (f_month f) (f_day f)"
    by (simp add: valid_fields_def)
  ultimately show ?thesis by (simp add: parse_and_fix_canonical)
qed

lemma parse_and_fix_twice: "parse_and_fix_date (parse_and_fix_date x) = parse_and_fix_date x"
proof (cases x)
  case None
  then show ?thesis by (simp add: parse_and_fix_date_def)
next
  case (Some s)
  show ?thesis
  proof (cases "s = [] \<or> s = ''N.A.''")
    case True
    with Some show ?thesis by (auto simp: parse_and_fix_date_def)
  next
    case ne: False
    show ?thesis
    proof (cases "dashed10 s \<and> (case strptime s ''%Y-%m-%d'' of Inr dt \<Rightarrow> True | Inl e \<Rightarrow> False)")
      case True
      with Some ne have "parse_and_fix_date x = Some s" by (simp add: parse_and_fix_date_def)
      then show ?thesis using Some by simp
    next
      case nv: False
      show ?thesis
      proof (cases "try_formats fix_formats s")
        case None
        with \<open>x = Some s\<close> ne nv have "parse_and_fix_date x = Some s"
          by (auto simp: parse_and_fix_date_def)
        then show ?thesis using Some by simp
      next
        case (Some r)
        with \<open>x = Some s\<close> ne nv have 1: "parse_and_fix_date x = Some r"
          by (auto simp: parse_and_fix_date_def)
        from try_formats_result [OF Some] obtain f
          where f: "valid_fields f" "r = strftime_ymd f" by blast
        from parse_and_fix_rendered [OF f(1)] f(2)
        have "parse_and_fix_date (Some r) = Some r" by simp
        with 1 show ?thesis by simp
      qed
    qed
  qed
qed


lemma fix_field_ok: "date_ok v \<Longrightarrow> fix_field v = (v, False)"
  by (auto simp: date_ok_def fix_field_def parse_and_fix_canonical truthy_def)

lemma fix_record_ok: "dates_canonical r \<Longrightarrow> fix_record r = (r, False)"
  by (simp add: dates_canonical_def fix_record_def fix_field_ok)

lemma fix_database_ok:
  assumes "\<forall>r\<in>set db. dates_canonical r"
  shows "fix_database_dates db = (0, db)"
proof -
  have "filter (\<lambda>r. snd (fix_record r)) db = []"
    using assms by (auto simp: filter_empty_conv fix_record_ok)
  then show ?thesis by (simp add: fix_database_dates_def)
qed

text \<open>
  C9. A canonical date of a valid calendar day is a fixed point of \<open>parse_and_fix_date\<close>;
  applying \<open>parse_and_fix_date\<close> twice gives what applying it once gives, for every value
  (also for one that a format parses to a day of a year before 1000: its rendering has
  fewer than four year digits, and no format parses it again); and the repair pass changes
  no record, and counts none as fixed, when every date field of every record is absent or
  canonical.
\<close>
theorem repair_pass_idempotent:
  "(\<forall>y m d. valid_date y m d \<longrightarrow>
      parse_and_fix_date (Some (canonical y m d)) = Some (canonical y m d))
   \<and> (\<forall>x. parse_and_fix_date (parse_and_fix_date x) = parse_and_fix_date x)
   \<and> (\<forall>db :: 'f action list.
        (\<forall>r\<in>set db. dates_canonical r) \<longrightarrow> fix_database_dates db = (0, db))"
  using parse_and_fix_canonical parse_and_fix_twice fix_database_ok by blast

lemma valid_2025_10_17: "valid_date 2025 10 17"
  by (simp add: valid_date_def days_in_month_def)

lemma canonical_2025_10_17: "canonical 2025 10 17 = ''2025-10-17''"
  by (simp add: canonical_def pad4_def pad2_def digit_char_def)

theorem repair_pass_idempotent_witness:
  "valid_date 2025 10 17
   \<and> parse_and_fix_date (Some ''2025-10-17'') = Some ''2025-10-17''
   \<and> parse_and_fix_date (parse_and_fix_date (Some ''17/10/2025'')) = parse_and_fix_date (Some ''17/10/2025'')
   \<and> parse_and_fix_date (Some ''17 Oct 0999'') = Some ''999-10-17''
   \<and> parse_and_fix_date (Some ''999-10-17'') = Some ''999-10-17''
   \<and> dates_canonical ((new_action ''bonus'' :: unit action)\<lparr>ex_date := Some ''2025-10-17''\<rparr>)
   \<and> fix_database_dates [(new_action ''bonus'' :: unit action)\<lparr>ex_date := Some ''2025-10-17''\<rparr>]
       = (0, [(new_action ''bonus'')\<lparr>ex_date := Some ''2025-10-17''\<rparr>])"
proof -
  note t = repair_pass_idempotent [where ?'f = unit]
  note t1 = t [THEN conjunct1, rule_format]
  note t2 = t [THEN conjunct2, THEN conjunct1, rule_format]
  note t3 = t [THEN conjunct2, THEN conjunct2, rule_format]
  have ok: "date_ok (Some ''2025-10-17'')"
    unfolding date_ok_def using valid_2025_10_17 canonical_2025_10_17 by metis
  have dc: "dates_canonical ((new_action ''bonus'' :: unit action)\<lparr>ex_date := Some ''2025-10-17''\<rparr>)"
    using ok by (simp add: dates_canonical_def new_action_def date_ok_def)
  have 1: "parse_and_fix_date (Some ''2025-10-17'') = Some ''2025-10-17''"
    using t1 [OF valid_2025_10_17] by (simp only: canonical_2025_10_17)
  have 2: "parse_and_fix_date (parse_and_fix_date (Some ''17/10/2025''))
             = parse_and_fix_date (Some ''17/10/2025'')"
    by (rule t2)
  have 3: "parse_and_fix_date (Some ''17 Oct 0999'') = Some ''999-10-17''" by code_simp
  have 4: "parse_and_fix_date (Some ''999-10-17'') = Some ''999-10-17''"
    using t2 [of "Some ''17 Oct 0999''"] unfolding 3 .
  have 5: "fix_database_dates [(new_action ''bonus'' :: unit action)\<lparr>ex_date := Some ''2025-10-17''\<rparr>]
       = (0, [(new_action ''bonus'')\<lparr>ex_date := Some ''2025-10-17''\<rparr>])"
    using dc by (intro t3) simp
  from valid_2025_10_17 1 2 3 4 dc 5 show ?thesis by (intro conjI)
qed
section \<open>The date parser: format independence and outcomes\<close>







section \<open>The resolver: caching and batches\<close>

lemma fetch_cached:
  "cache st (cache_key name mc) = Some r \<Longrightarrow> fetch_security_id svc name mc st = (Some r, st)"
  by (simp add: fetch_security_id_def)

lemma fetch_Some:
  assumes "fetch_security_id svc name mc st = (Some r, st')"
  shows "cache st' (cache_key name mc) = Some r"
  using assms
  by (auto simp: fetch_security_id_def Let_def split: option.splits sum.splits)

lemma fetch_None:
  assumes "fetch_security_id svc name mc st = (None, st')"
  shows "cache st (cache_key name mc) = None"
    and "st' = st\<lparr>requests := requests st @ [fmt_name name]\<rparr>"
  using assms
  by (auto simp: fetch_security_id_def Let_def split: option.splits sum.splits)

lemma fetch_miss_requests:
  assumes "cache st (cache_key name mc) = None"
  shows "requests (snd (fetch_security_id svc name mc st)) = requests st @ [fmt_name name]"
  using assms
  by (auto simp: fetch_security_id_def Let_def split: option.splits sum.splits)


text \<open>
  C6, as stated, fails: on a fresh resolver and a service that answers 404, the first call
  for \<open>X\<close> returns absent and leaves the cache empty, and the second call for the same
  name and market sends a second request.
\<close>
theorem absent_result_not_cached_counterexample:
  "fst (fetch_security_id service_404 (Some ''X'') (Some ''NSE'') fresh_resolver) = None
   \<and> cache (snd (fetch_security_id service_404 (Some ''X'') (Some ''NSE'') fresh_resolver))
         (cache_key (Some ''X'') (Some ''NSE'')) = None
   \<and> requests (snd (fetch_security_id service_404 (Some ''X'') (Some ''NSE'')
         (snd (fetch_security_id service_404 (Some ''X'') (Some ''NSE'') fresh_resolver))))
       = [''X'', ''X'']"
  by (simp add: fetch_security_id_def lookup_def service_404_def fresh_resolver_def
      cache_key_def fmt_name_def or_else_def truthy_def)

text \<open>
  C6, amended. Only a successful resolution is cached: after \<open>fetch_security_id\<close> has
  returned a result for a company name and market hint, a later call with the same pair
  returns that result whatever the lookup service would answer, and sends no request. After
  it has returned absent, the cache is as before, one request was sent, and a later call
  with the same pair sends a request again.
\<close>
theorem only_success_is_cached:
  "(fetch_security_id svc name mc st = (Some r, st') \<longrightarrow>
      (\<forall>svc'. fetch_security_id svc' name mc st' = (Some r, st')))
   \<and> (fetch_security_id svc name mc st = (None, st') \<longrightarrow>
        cache st' = cache st \<and> requests st' = requests st @ [fmt_name name]
        \<and> (\<forall>svc'. requests (snd (fetch_security_id svc' name mc st'))
                    = requests st' @ [fmt_name name]))"
proof (intro conjI impI allI)
  fix svc'
  assume "fetch_security_id svc name mc st = (Some r, st')"
  from fetch_cached [OF fetch_Some [OF this]]
  show "fetch_security_id svc' name mc st' = (Some r, st')" .
next
  assume a: "fetch_security_id svc name mc st = (None, st')"
  note n = fetch_None [OF a]
  show "cache st' = cache st" by (simp add: n(2))
  show "requests st' = requests st @ [fmt_name name]" by (simp add: n(2))
  fix svc'
  have "cache st' (cache_key name mc) = None" using n by simp
  then show "requests (snd (fetch_security_id svc' name mc st')) = requests st' @ [fmt_name name]"
    by (rule fetch_miss_requests)
qed

theorem only_success_is_cached_witness:
  "fst (fetch_security_id service_AC (Some ''A'') (Some ''NSE'') fresh_resolver)
     = Some (make_result (acme_security\<lparr>s_company_name := Some ''A''\<rparr>) (Some ''NSE''))
   \<and> fetch_security_id service_404 (Some ''A'') (Some ''NSE'')
         (snd (fetch_security_id service_AC (Some ''A'') (Some ''NSE'') fresh_resolver))
       = (Some (make_result (acme_security\<lparr>s_company_name := Some ''A''\<rparr>) (Some ''NSE'')),
          snd (fetch_security_id service_AC (Some ''A'') (Some ''NSE'') fresh_resolver))
   \<and> fst (fetch_security_id service_AC (Some ''B'') (Some ''NSE'') fresh_resolver) = None
   \<and> requests (snd (fetch_security_id service_AC (Some ''B'') (Some ''NSE'')
         (snd (fetch_security_id service_AC (Some ''B'') (Some ''NSE'') fresh_resolver))))
       = [''B'', ''B'']"
proof -
  let ?r = "make_result (acme_security\<lparr>s_company_name := Some ''A''\<rparr>) (Some ''NSE'')"
  obtain stA where A: "fetch_security_id service_AC (Some ''A'') (Some ''NSE'') fresh_resolver
      = (Some ?r, stA)"
    by (simp add: fetch_security_id_def lookup_def service_AC_def fresh_resolver_def
        cache_key_def fmt_name_def or_else_def truthy_def acme_security_def)
  obtain stB where B: "fetch_security_id service_AC (Some ''B'') (Some ''NSE'') fresh_resolver
      = (None, stB)"
    by (simp add: fetch_security_id_def lookup_def service_AC_def fresh_resolver_def
        cache_key_def fmt_name_def or_else_def truthy_def)
  note t = only_success_is_cached
  from t [of service_AC "Some ''A''" "Some ''NSE''" fresh_resolver ?r stA] A
  have 1: "fetch_security_id service_404 (Some ''A'') (Some ''NSE'') stA = (Some ?r, stA)"
    by blast
  from t [of service_AC "Some ''B''" "Some ''NSE''" fresh_resolver _ stB] B
  have 2: "requests stB = requests fresh_resolver @ [fmt_name (Some ''B'')]"
    and 3: "requests (snd (fetch_security_id service_AC (Some ''B'') (Some ''NSE'') stB))
      = requests stB @ [fmt_name (Some ''B'')]"
    by blast+
  from 2 3 have 4: "requests (snd (fetch_security_id service_AC (Some ''B'') (Some ''NSE'') stB))
      = [''B'', ''B'']"
    by (simp add: fresh_resolver_def fmt_name_def)
  from A B 1 4 show ?thesis by simp
qed


lemma cache_grown_refl: "cache_grown svc mc st st"
  by (simp add: cache_grown_def)

lemma cache_key_fmt: "cache_key n mc = cache_key n' mc \<Longrightarrow> fmt_name n = fmt_name n'"
  by (simp add: cache_key_def)

lemma lookup_fmt: "fmt_name n = fmt_name n' \<Longrightarrow> lookup svc n mc = lookup svc n' mc"
  by (simp add: lookup_def)

lemma fetch_miss:
  assumes "cache st (cache_key n mc) = None"
  shows "fst (fetch_security_id svc n mc st)
         = (case lookup svc n mc of Inr (Some r) \<Rightarrow> Some r | _ \<Rightarrow> None)"
    and "cache (snd (fetch_security_id svc n mc st))
         = (case lookup svc n mc of Inr (Some r) \<Rightarrow> (cache st)(cache_key n mc \<mapsto> r)
                                   | _ \<Rightarrow> cache st)"
  using assms
  by (auto simp: fetch_security_id_def Let_def split: option.splits sum.splits)

lemma fetch_grown:
  assumes "cache_grown svc mc st0 st"
  shows "fst (fetch_security_id svc n mc st) = fst (fetch_security_id svc n mc st0)"
    and "cache_grown svc mc st0 (snd (fetch_security_id svc n mc st))"
proof -
  let ?k = "cache_key n mc"
  from assms have g: "cache st ?k = cache st0 ?k
      \<or> (cache st0 ?k = None
          \<and> (\<exists>n' r. cache st ?k = Some r \<and> ?k = cache_key n' mc \<and> lookup svc n' mc = Inr (Some r)))"
    unfolding cache_grown_def by blast
  show "fst (fetch_security_id svc n mc st) = fst (fetch_security_id svc n mc st0)"
  proof (cases "cache st ?k")
    case None
    with g have "cache st0 ?k = None" by auto
    with None show ?thesis by (simp add: fetch_miss(1))
  next
    case (Some r)
    show ?thesis
    proof (cases "cache st0 ?k")
      case None
      with g Some obtain n' where "?k = cache_key n' mc" "lookup svc n' mc = Inr (Some r)"
        by auto
      with lookup_fmt [OF cache_key_fmt, of n mc n' svc]
      have "lookup svc n mc = Inr (Some r)" by simp
      with None Some show ?thesis by (simp add: fetch_miss(1) fetch_cached)
    next
      case s0: (Some r0)
      with g Some have "r0 = r" by auto
      with s0 Some show ?thesis by (simp add: fetch_cached)
    qed
  qed
  show "cache_grown svc mc st0 (snd (fetch_security_id svc n mc st))"
  proof (cases "cache st ?k")
    case (Some r)
    with assms show ?thesis by (simp add: fetch_cached)
  next
    case None
    show ?thesis
    proof (cases "lookup svc n mc")
      case (Inl e)
      with assms None show ?thesis by (simp add: cache_grown_def fetch_miss(2))
    next
      case (Inr res)
      show ?thesis
      proof (cases res)
        case n0: None
        with Inr assms None show ?thesis by (simp add: cache_grown_def fetch_miss(2))
      next
        case (Some r)
        from g None have k0: "cache st0 ?k = None" by auto
        have c: "cache (snd (fetch_security_id svc n mc st)) = (cache st)(?k \<mapsto> r)"
          using None Inr Some by (simp add: fetch_miss(2))
        show ?thesis
          unfolding cache_grown_def c
        proof
          fix k
          show "((cache st)(?k \<mapsto> r)) k = cache st0 k
              \<or> (cache st0 k = None
                  \<and> (\<exists>n' r'. ((cache st)(?k \<mapsto> r)) k = Some r' \<and> k = cache_key n' mc
                        \<and> lookup svc n' mc = Inr (Some r')))"
          proof (cases "k = ?k")
            case True
            with k0 Inr Some show ?thesis by auto
          next
            case False
            with assms show ?thesis unfolding cache_grown_def by simp
          qed
        qed
      qed
    qed
  qed
qed

lemma batch_loop_results:
  assumes "0 \<le> delay" "cache_grown svc mc st0 st"
  shows "\<exists>res st'. batch_loop svc mc delay n_total idx names results st = (Inr res, st')
           \<and> (\<forall>n. res n = (if n \<in> set names
                               then (case fst (fetch_security_id svc n mc st0) of
                                       Some r \<Rightarrow> Some r | None \<Rightarrow> results n)
                               else results n))"
  using assms(2)
proof (induction names arbitrary: idx results st)
  case Nil
  then show ?case by simp
next
  case (Cons name names)
  obtain info st1 where f: "fetch_security_id svc name mc st = (info, st1)"
    by (cases "fetch_security_id svc name mc st")
  from fetch_grown [OF Cons.prems, of name] f
  have i: "info = fst (fetch_security_id svc name mc st0)" and g1: "cache_grown svc mc st0 st1"
    by simp_all
  let ?results' = "case info of Some r \<Rightarrow> results(name \<mapsto> r) | None \<Rightarrow> results"
  from Cons.IH [OF g1, of "Suc idx" ?results'] obtain res st' where
    b: "batch_loop svc mc delay n_total (Suc idx) names ?results' st1 = (Inr res, st')"
    and r: "\<forall>n. res n = (if n \<in> set names
                               then (case fst (fetch_security_id svc n mc st0) of
                                       Some r \<Rightarrow> Some r | None \<Rightarrow> ?results' n)
                               else ?results' n)"
    by blast
  have "batch_loop svc mc delay n_total idx (name # names) results st = (Inr res, st')"
    using f b assms(1) by (simp add: Let_def)
  moreover have "\<forall>n. res n = (if n \<in> set (name # names)
                               then (case fst (fetch_security_id svc n mc st0) of
                                       Some r \<Rightarrow> Some r | None \<Rightarrow> results n)
                               else results n)"
  proof
    fix n
    show "res n = (if n \<in> set (name # names)
                   then (case fst (fetch_security_id svc n mc st0) of
                           Some r \<Rightarrow> Some r | None \<Rightarrow> results n)
                   else results n)"
      using r [rule_format, of n] i by (cases info) (auto split: option.splits)
  qed
  ultimately show ?case by blast
qed




section \<open>The normalizers: the loop over the rows\<close>

lemma bonus_contract: "row_contract ''bonus'' (\<lambda>row. date_field (row ! 4)) (bonus_row F)"
  unfolding row_contract_def bonus_row_def Let_def new_action_def
  by (auto split: sum.splits)

lemma dividend_contract: "row_contract ''dividend'' (\<lambda>row. date_field (row ! 2)) (dividend_row F)"
  unfolding row_contract_def dividend_row_def Let_def new_action_def
  by (auto split: sum.splits)

lemma split_contract: "row_contract ''split'' (\<lambda>row. parse_date (row ! 4)) (split_row F)"
  unfolding row_contract_def split_row_def Let_def new_action_def
  by (auto split: sum.splits)

lemma rights_contract: "row_contract ''rights'' (\<lambda>row. date_field_na (row ! 4)) (rights_row F)"
  unfolding row_contract_def rights_row_def Let_def new_action_def
  by (auto split: sum.splits)


lemma flush_append: "flush F db pending = Inr db' \<Longrightarrow> db' = db @ pending"
proof (induction pending arbitrary: db)
  case Nil
  then show ?case by simp
next
  case (Cons p ps)
  from Cons.prems have "flush F (db @ [p]) ps = Inr db'" by (simp split: if_splits)
  from Cons.IH [OF this] show ?case by simp
qed


lemma rows_loop_step:
  "rows_loop n fn db (r # rows) p0 c0 =
     (if r = [] \<or> length r < n then rows_loop n fn db rows p0 c0
      else case fn db r of
             Inr (Some b) \<Rightarrow> rows_loop n fn db rows (p0 @ [b]) (Suc c0)
           | _ \<Rightarrow> rows_loop n fn db rows p0 c0)"
  by (simp split: sum.splits option.splits)



lemma rows_loop_origin:
  assumes "rows_loop n fn db rows p0 c0 = (p, c)" "a \<in> set p"
  shows "a \<in> set p0 \<or> (\<exists>row\<in>set rows. fn db row = Inr (Some a))"
  using assms
proof (induction rows arbitrary: p0 c0)
  case Nil
  then show ?case by simp
next
  case (Cons r rows)
  show ?case
  proof (cases "r = [] \<or> length r < n")
    case True
    with Cons.prems have "rows_loop n fn db rows p0 c0 = (p, c)" unfolding rows_loop_step by simp
    from Cons.IH [OF this Cons.prems(2)] show ?thesis by auto
  next
    case False
    show ?thesis
    proof (cases "\<exists>b. fn db r = Inr (Some b)")
      case True
      then obtain b where b: "fn db r = Inr (Some b)" by blast
      with False Cons.prems have "rows_loop n fn db rows (p0 @ [b]) (Suc c0) = (p, c)"
        unfolding rows_loop_step by simp
      from Cons.IH [OF this Cons.prems(2)] b show ?thesis by auto
    next
      case nb: False
      with False Cons.prems have "rows_loop n fn db rows p0 c0 = (p, c)"
        unfolding rows_loop_step by (auto split: sum.splits option.splits)
      from Cons.IH [OF this Cons.prems(2)] show ?thesis by auto
    qed
  qed
qed



lemma batch_returns:
  "\<exists>sm rs'. fetch_security_batch svc names mc (5 / 100) rs = (Inr sm, rs')"
proof -
  have "(0::real) \<le> 5 / 100" by simp
  from batch_loop_results [OF this cache_grown_refl,
      where svc = svc and mc = mc and st = rs and n_total = "length names" and idx = 1
        and names = names and results = Map.empty]
  show ?thesis unfolding fetch_security_batch_def by blast
qed


lemma process_data_final_date:
  assumes c: "row_contract atype exd row_fn"
    and r: "process_data F n row_fn svc fc market (rs, db) = (res, rs1, db1)"
    and a: "a \<in> set db1"
  shows "a \<in> set db \<or> final_date a = ex_date a"
proof (cases fc)
  case NotJson
  with r a show ?thesis by (simp add: process_data_def parse_json_file_def)
next
  case OtherJson
  with r a show ?thesis by (simp add: process_data_def parse_json_file_def)
next
  case (Table headers rows)
  from batch_returns obtain sm rs' where
    b: "fetch_security_batch svc (unique_companies rows) (Some market) (5 / 100) rs = (Inr sm, rs')"
    by blast
  obtain pending c0 where l: "rows_loop n (row_fn market sm) db rows [] 0 = (pending, c0)"
    by (cases "rows_loop n (row_fn market sm) db rows [] 0")
  show ?thesis
  proof (cases "flush F db pending")
    case (Inl e)
    with r Table b l a show ?thesis by (simp add: process_data_def parse_json_file_def)
  next
    case (Inr db')
    with r Table b l have "db1 = db'" by (simp add: process_data_def parse_json_file_def)
    with flush_append [OF Inr] a have "a \<in> set db \<or> a \<in> set pending" by auto
    then show ?thesis
    proof
      assume "a \<in> set pending"
      from rows_loop_origin [OF l this] obtain row where
        "row_fn market sm db row = Inr (Some a)" by auto
      with c [unfolded row_contract_def, rule_format, of market sm db row]
      show ?thesis by simp
    qed simp
  qed
qed

section \<open>The normalizers: idempotent ingestion and the final date\<close>

lemma run_handler_contract:
  "\<exists>n atype exd row_fn. row_contract atype exd (row_fn :: string \<Rightarrow> (cell \<rightharpoonup> resolved) \<Rightarrow> 'f action list \<Rightarrow> cell list \<Rightarrow> py_error + 'f action option)
      \<and> run_handler F h = process_data F n row_fn"
proof (cases h)
  case Bonus
  with bonus_contract [of F] show ?thesis
    unfolding run_handler_def process_bonus_data_def by auto
next
  case Dividend
  with dividend_contract [of F] show ?thesis
    unfolding run_handler_def process_dividend_data_def by auto
next
  case Split
  with split_contract [of F] show ?thesis
    unfolding run_handler_def process_split_data_def by auto
next
  case Rights
  with rights_contract [of F] show ?thesis
    unfolding run_handler_def process_rights_data_def by auto
qed




text \<open>
  C10. Every record that the body of a normalizer's loop builds (bonus, dividend, split,
  rights) has \<open>final_date\<close> equal to \<open>ex_date\<close>, so absent exactly when \<open>ex_date\<close> is; a
  dividend record has its \<open>record_date\<close> from its own column all the same. Hence every
  row that a normalizer leaves in the store was there before or has \<open>final_date\<close> equal to
  \<open>ex_date\<close>, and for such a row the retention test on \<open>final_date\<close> is the test on
  \<open>ex_date\<close>.
\<close>
theorem final_date_is_ex_date:
  "(bonus_row F market sm db row = Inr (Some a) \<longrightarrow> final_date a = ex_date a)
   \<and> (dividend_row F market sm db row = Inr (Some a) \<longrightarrow>
        final_date a = ex_date a \<and> record_date a = date_field (row ! 5))
   \<and> (split_row F market sm db row = Inr (Some a) \<longrightarrow> final_date a = ex_date a)
   \<and> (rights_row F market sm db row = Inr (Some a) \<longrightarrow> final_date a = ex_date a)
   \<and> (run_handler F h svc fc market (rs, db) = (res, rs1, db1) \<longrightarrow>
        (\<forall>b\<in>set db1. b \<in> set db \<or> final_date b = ex_date b))
   \<and> (final_date a = ex_date a \<longrightarrow>
        is_old cutoff_date a = (case ex_date a of None \<Rightarrow> False | Some e \<Rightarrow> e < cutoff_date))"
proof (intro conjI impI ballI)
  assume "bonus_row F market sm db row = Inr (Some a)"
  with bonus_contract [of F, unfolded row_contract_def, rule_format, of market sm db row]
  show "final_date a = ex_date a" by simp
next
  assume d: "dividend_row F market sm db row = Inr (Some a)"
  with dividend_contract [of F, unfolded row_contract_def, rule_format, of market sm db row]
  show "final_date a = ex_date a" by simp
  from d show "record_date a = date_field (row ! 5)"
    unfolding dividend_row_def Let_def new_action_def
    by (auto split: sum.splits if_splits)
next
  assume "split_row F market sm db row = Inr (Some a)"
  with split_contract [of F, unfolded row_contract_def, rule_format, of market sm db row]
  show "final_date a = ex_date a" by simp
next
  assume "rights_row F market sm db row = Inr (Some a)"
  with rights_contract [of F, unfolded row_contract_def, rule_format, of market sm db row]
  show "final_date a = ex_date a" by simp
next
  fix b
  assume r: "run_handler F h svc fc market (rs, db) = (res, rs1, db1)" and b: "b \<in> set db1"
  from run_handler_contract [of F h] obtain n atype exd
    and row_fn :: "string \<Rightarrow> (cell \<rightharpoonup> resolved) \<Rightarrow> 'a action list \<Rightarrow> cell list \<Rightarrow> py_error + 'a action option"
    where c: "row_contract atype exd row_fn" and h: "run_handler F h = process_data F n row_fn"
    by blast
  from process_data_final_date [OF c r [unfolded h] b]
  show "b \<in> set db \<or> final_date b = ex_date b" .
next
  assume "final_date a = ex_date a"
  then show "is_old cutoff_date a = (case ex_date a of None \<Rightarrow> False | Some e \<Rightarrow> e < cutoff_date)"
    by (simp add: is_old_def)
qed

theorem final_date_is_ex_date_witness:
  "(\<exists>a. dividend_row nat_floats ''NSE'' Map.empty [] acme_dividend_row = Inr (Some a)
        \<and> ex_date a = Some ''2025-10-20'' \<and> final_date a = Some ''2025-10-20''
        \<and> record_date a = Some ''2025-10-22'')"
proof -
  obtain a where a: "dividend_row nat_floats ''NSE'' Map.empty [] acme_dividend_row = Inr (Some a)"
    and e: "ex_date a = Some ''2025-10-20''" and r: "record_date a = Some ''2025-10-22''"
  proof -
    have "case dividend_row nat_floats ''NSE'' Map.empty [] acme_dividend_row of
            Inr (Some a) \<Rightarrow> ex_date a = Some ''2025-10-20'' \<and> record_date a = Some ''2025-10-22''
          | _ \<Rightarrow> False"
      by code_simp
    then show ?thesis using that by (auto split: sum.splits option.splits)
  qed
  from final_date_is_ex_date [of nat_floats "''NSE''" Map.empty "[]" acme_dividend_row a] a
  have "final_date a = ex_date a" by blast
  with a e r show ?thesis by auto
qed

section \<open>The orchestrator and a file that cannot be parsed\<close>

text \<open>
  C3 on the code. A staged file that is JSON of another shape is skipped with the count 0,
  and the dividend file beside it is processed. A staged file that is not JSON makes
  \<open>json.load\<close> raise inside \<open>parse_json_file\<close>; nothing catches the exception, it leaves
  \<open>process_all_files\<close>, and the dividend file beside it is never processed.
\<close>
theorem file_that_is_not_json_aborts_the_run:
  "fst (process_all_files nat_floats acme_service (Some staged_other_json) (fresh_resolver, []))
     = Inr [(''bonus_nse_NSE'', 0), (''dividend_nse_NSE'', 1)]
   \<and> fst (process_all_files nat_floats acme_service (Some staged_bad_json) (fresh_resolver, []))
     = Inl JSONDecodeError
   \<and> snd (snd (process_all_files nat_floats acme_service (Some staged_bad_json)
        (fresh_resolver, []))) = []"
  by code_simp


end
